theory Spec2Isabelle
  imports Complex_Main "HOL-Library.Word" "HOL-Library.Log_Nat" "HOL-Library.Multiset"
begin

unbundle bit_operations_syntax

section \<open>Machine numbers\<close>

text \<open>
  Go's \<open>int\<close> is a 64-bit two's complement integer on the platforms the program is built
  for (\<open>+\<close>, \<open>-\<close> and \<open>++\<close> wrap); \<open>int32\<close> and \<open>uint32\<close> are 32-bit
  words. \<open>sint\<close> reads a word as the signed number Go means by it.
\<close>

type_synonym goint = "64 word"
type_synonym int32 = "32 word"
type_synonym uint32 = "32 word"

text \<open>
  What can go wrong in the Go code, as values: the two run-time panics the code can raise
  (an index out of range, a failed type assertion on an interface value), and the
  conversion of a float that is not finite or does not fit into an \<open>int\<close>, whose result
  the language leaves to the implementation.
\<close>

datatype error = IndexOutOfRange | InterfaceConversion | UnspecifiedConversion

subsection \<open>IEEE 754 binary64 (Go's float64)\<close>

text \<open>
  A finite float64 is the rational number it denotes (the sign of zero plays no part in
  this program). Every operation computes the exact result and rounds it to the nearest
  representable number, ties to even; a result that is not finite (an infinity or a NaN)
  is \<open>None\<close>.

  \<open>ilog2 x\<close> is the binary exponent of a positive \<open>x\<close>: \<open>2 ^ ilog2 x \<le> x < 2 ^ (ilog2 x + 1)\<close>.
\<close>

definition ilog2 :: "rat \<Rightarrow> int" where
  "ilog2 x = (let (a, b) = quotient_of x; d = bitlen a - bitlen b
              in if 2 powi d \<le> x then d else d - 1)"

text \<open>Rounding a rational to the nearest integer, a tie to the even neighbour.\<close>

definition rne :: "rat \<Rightarrow> int" where
  "rne y = (let f = \<lfloor>y\<rfloor>; d = y - of_int f
            in if d < 1 / 2 then f
               else if 1 / 2 < d then f + 1
               else if even f then f else f + 1)"

text \<open>
  Rounding to 53 significant bits. Below \<open>2 ^ -1022\<close> the numbers are subnormal and
  the spacing stays \<open>2 ^ -1074\<close>.
\<close>

definition f64_rnd :: "rat \<Rightarrow> rat" where
  "f64_rnd x = (if x = 0 then 0
                else let q = max (ilog2 \<bar>x\<bar>) (- 1022) - 52
                     in of_int (rne (x / 2 powi q)) * 2 powi q)"

definition f64_round :: "rat \<Rightarrow> rat option" where
  "f64_round x = (let r = f64_rnd x in if 2 powi 1024 \<le> \<bar>r\<bar> then None else Some r)"

text \<open>\<open>float64(i)\<close> for an \<open>int\<close>: always finite.\<close>

definition f64_of_int :: "goint \<Rightarrow> rat" where
  "f64_of_int i = f64_rnd (of_int (sint i))"

definition f64_div :: "rat \<Rightarrow> rat \<Rightarrow> rat option" where
  "f64_div x y = (if y = 0 then None else f64_round (x / y))"

definition f64_mul :: "rat \<Rightarrow> rat \<Rightarrow> rat option" where
  "f64_mul x y = f64_round (x * y)"

definition f64_sub :: "rat \<Rightarrow> rat \<Rightarrow> rat option" where
  "f64_sub x y = f64_round (x - y)"

text \<open>
  \<open>int(f)\<close> for a finite float: the fraction is discarded (truncation towards zero); a
  value outside the range of \<open>int\<close> has no result fixed by the language.
\<close>

definition f64_to_int :: "rat \<Rightarrow> goint option" where
  "f64_to_int x = (let z = (if 0 \<le> x then \<lfloor>x\<rfloor> else \<lceil>x\<rceil>)
                   in if - (2 ^ 63) \<le> z \<and> z < 2 ^ 63 then Some (word_of_int z) else None)"

section \<open>The weight normalizer\<close>

text \<open>\<open>intSum\<close>: the running sum \<open>r += i\<close>, wrapping as Go's \<open>int\<close> does.\<close>

definition intSum :: "goint list \<Rightarrow> goint" where
  "intSum n = foldl (\<lambda>r i. r + i) 0 n"

text \<open>
  \<open>argsort\<close> fills \<open>idx\<close> with \<open>0, 1, ..\<close> and sorts the values into descending order
  (\<open>sort.Reverse\<close>), \<open>Swap\<close> exchanging the entries of both slices together, so that
  \<open>idx\<close> ends as the permutation that sorts. The sorting itself is Go's library
  \<open>sort.Sort\<close>, modelled by its insertion sort: an entry moves left while the entry
  before it is strictly smaller. Among equal values the library does not promise an
  order; the results below use only that the outcome is a permutation of the indices.
\<close>

fun insertDesc :: "rat \<times> nat \<Rightarrow> (rat \<times> nat) list \<Rightarrow> (rat \<times> nat) list" where
  "insertDesc x [] = [x]"
| "insertDesc x (y # ys) = (if fst y < fst x then x # y # ys else y # insertDesc x ys)"

definition insertionSort :: "(rat \<times> nat) list \<Rightarrow> (rat \<times> nat) list" where
  "insertionSort xs = foldl (\<lambda>acc x. insertDesc x acc) [] xs"

definition argsort :: "rat list \<Rightarrow> nat list" where
  "argsort n = map snd (insertionSort (zip n [0..<length n]))"

text \<open>
  The first loop of \<open>standardizeWeights\<close>: for each weight the percentage
  \<open>float64(w) / float64(total)\<close>, its hundredfold cut to an \<open>int\<close>, and the remainder
  \<open>perc*100 - float64(rounded)\<close>. A division by a zero total would give an infinity or
  a NaN, and the conversion of that to \<open>int\<close> is \<open>UnspecifiedConversion\<close>.
\<close>

fun percentages :: "goint \<Rightarrow> goint list \<Rightarrow> error + (goint list \<times> rat list)" where
  "percentages tot [] = Inr ([], [])"
| "percentages tot (w # ws) =
     (case f64_div (f64_of_int w) (f64_of_int tot) of
        None \<Rightarrow> Inl UnspecifiedConversion
      | Some perc \<Rightarrow>
          (case f64_mul perc 100 of
             None \<Rightarrow> Inl UnspecifiedConversion
           | Some p \<Rightarrow>
               (case f64_to_int p of
                  None \<Rightarrow> Inl UnspecifiedConversion
                | Some rounded \<Rightarrow>
                    (case f64_sub p (f64_of_int rounded) of
                       None \<Rightarrow> Inl UnspecifiedConversion
                     | Some remainder \<Rightarrow>
                         (case percentages tot ws of
                            Inl e \<Rightarrow> Inl e
                          | Inr (results, remainders) \<Rightarrow>
                              Inr (rounded # results, remainder # remainders))))))"

text \<open>
  The second loop: while something remains, the next index in \<open>order\<close> gets one more
  point. \<open>remaining <= 0\<close> is a signed comparison.
\<close>

fun distribute :: "goint \<Rightarrow> nat list \<Rightarrow> goint list \<Rightarrow> error + goint list" where
  "distribute remaining [] results = Inr results"
| "distribute remaining (idx # order) results =
     (if remaining \<le>s 0 then Inr results
      else if length results \<le> idx then Inl IndexOutOfRange
      else distribute (remaining - 1) order (results[idx := results ! idx + 1]))"

text \<open>
  \<open>standardizeWeights\<close>. The Go function overwrites its argument with ones in the
  all-zero case; both callers pass a slice they have just built and do not read again.
\<close>

definition standardizeWeights :: "goint list \<Rightarrow> error + goint list" where
  "standardizeWeights weights =
     (if length weights = 1 then Inr [0]
      else
        let tot = intSum weights;
            (weights', tot') =
               (if tot = 0 then (map (\<lambda>_. 1) weights, of_nat (length weights))
                else (weights, tot))
        in case percentages tot' weights' of
             Inl e \<Rightarrow> Inl e
           | Inr (results, remainders) \<Rightarrow>
               distribute (100 - intSum results) (argsort remainders) results)"

section \<open>Resources\<close>

text \<open>
  The input and output resources, as the Go structs declare them. A pointer field is an
  \<open>option\<close> (\<open>None\<close> is nil), a slice is a list (a nil slice and an empty one are both
  \<open>[]\<close>), a Go map is a partial function. The label selectors of the Kubernetes API are
  kept abstract (the type variable \<open>'s\<close>): this program only hands them to the library.
  Field names carry a prefix for their struct.
\<close>

type_synonym Time = nat
type_synonym Labels = "string \<rightharpoonup> string"

record GroupVersionKind =
  gvk_Group :: string
  gvk_Version :: string
  gvk_Kind :: string

record Meta =
  m_GroupVersionKind :: GroupVersionKind
  m_Name :: string
  m_Namespace :: string
  m_Domain :: string
  m_Labels :: Labels
  m_Generation :: "64 word"
  m_CreationTimestamp :: Time

subsection \<open>The gateway API (input)\<close>

record GatewayReference =
  gr_Name :: string
  gr_Namespace :: string

record RouteGateways =
  rg_Allow :: string
  rg_GatewayRefs :: "GatewayReference list"

record LocalObjectReference =
  lor_Group :: string
  lor_Kind :: string
  lor_Name :: string

record 's RouteNamespaces =
  rn_From :: string
  rn_Selector :: 's

record 's RouteBindingSelector =
  rbs_Namespaces :: "'s RouteNamespaces"
  rbs_Selector :: 's
  rbs_Group :: string
  rbs_Kind :: string

record GatewayTLSConfig =
  tls_Mode :: string
  tls_CertificateRef :: "LocalObjectReference option"

record 's Listener =
  l_Hostname :: "string option"
  l_Port :: int32
  l_Protocol :: string
  l_TLS :: "GatewayTLSConfig option"
  l_Routes :: "'s RouteBindingSelector"

record 's GatewaySpec =
  g_GatewayClassName :: string
  g_Listeners :: "'s Listener list"

record GatewayClassSpec =
  gc_Controller :: string

record HTTPPathMatch =
  pm_Type :: string
  pm_Value :: string

record HTTPHeaderMatch =
  hm_Type :: string
  hm_Values :: "string \<rightharpoonup> string"

record HTTPRouteMatch =
  rm_Path :: HTTPPathMatch
  rm_Headers :: "HTTPHeaderMatch option"

record HTTPRequestHeaderFilter =
  hf_Set :: "string \<rightharpoonup> string"
  hf_Add :: "string \<rightharpoonup> string"
  hf_Remove :: "string list"

record HTTPRouteFilter =
  rf_Type :: string
  rf_RequestHeaderModifier :: "HTTPRequestHeaderFilter option"

record HTTPRouteForwardTo =
  hft_ServiceName :: "string option"
  hft_BackendRef :: "LocalObjectReference option"
  hft_Port :: "int32 option"
  hft_Weight :: int32
  hft_Filters :: "HTTPRouteFilter list"

record HTTPRouteRule =
  hr_Matches :: "HTTPRouteMatch list"
  hr_Filters :: "HTTPRouteFilter list"
  hr_ForwardTo :: "HTTPRouteForwardTo list"

record HTTPRouteSpec =
  hs_Gateways :: RouteGateways
  hs_Hostnames :: "string list"
  hs_Rules :: "HTTPRouteRule list"

record RouteForwardTo =
  ft_ServiceName :: "string option"
  ft_BackendRef :: "LocalObjectReference option"
  ft_Port :: "int32 option"
  ft_Weight :: int32

record TCPRouteMatch =
  tm_ExtensionRef :: "LocalObjectReference option"

record TCPRouteRule =
  tr_Matches :: "TCPRouteMatch list"
  tr_ForwardTo :: "RouteForwardTo list"

record TCPRouteSpec =
  ts_Rules :: "TCPRouteRule list"
  ts_Gateways :: RouteGateways

record TLSRouteMatch =
  sm_SNIs :: "string list"

record TLSRouteRule =
  sr_Matches :: "TLSRouteMatch list"
  sr_ForwardTo :: "RouteForwardTo list"

record TLSRouteSpec =
  ss_Rules :: "TLSRouteRule list"
  ss_Gateways :: RouteGateways

record BackendRef =
  br_Group :: string
  br_Kind :: string
  br_Name :: string
  br_Port :: "int32 option"

record BackendTLSConfig =
  bt_CertificateAuthorityRef :: "LocalObjectReference option"

record BackendPolicySpec =
  bp_BackendRefs :: "BackendRef list"
  bp_TLS :: "BackendTLSConfig option"

record Namespace =
  ns_Labels :: Labels

subsection \<open>The mesh configuration (output)\<close>

datatype StringMatch = Exact string | Regex string

record PortSelector =
  ps_Number :: uint32

record Destination =
  d_Host :: string
  d_Port :: "PortSelector option"

record HeaderOperations =
  ho_Set :: "string \<rightharpoonup> string"
  ho_Add :: "string \<rightharpoonup> string"
  ho_Remove :: "string list"

record Headers =
  h_Request :: "HeaderOperations option"

record HTTPRouteDestination =
  hd_Destination :: "Destination option"
  hd_Weight :: int32
  hd_Headers :: "Headers option"

record RouteDestination =
  rd_Destination :: "Destination option"
  rd_Weight :: int32

record HTTPMatchRequest =
  mr_Uri :: "StringMatch option"
  mr_Headers :: "string \<rightharpoonup> StringMatch"

record IstioHTTPRoute =
  ih_Match :: "HTTPMatchRequest list"
  ih_Route :: "HTTPRouteDestination list"
  ih_Headers :: "Headers option"

record L4MatchAttributes =
  l4_Port :: uint32

record IstioTCPRoute =
  it_Match :: "L4MatchAttributes list"
  it_Route :: "RouteDestination list"

record TLSMatchAttributes =
  ta_SniHosts :: "string list"

record IstioTLSRoute =
  il_Match :: "TLSMatchAttributes list"
  il_Route :: "RouteDestination list"

record VirtualService =
  vs_Hosts :: "string list"
  vs_Gateways :: "string list"
  vs_Http :: "IstioHTTPRoute list"
  vs_Tls :: "IstioTLSRoute list"
  vs_Tcp :: "IstioTCPRoute list"

datatype TLSmode = SIMPLE | PASSTHROUGH

record ServerTLSSettings =
  st_HttpsRedirect :: bool
  st_Mode :: TLSmode
  st_CredentialName :: string

record Port =
  p_Number :: uint32
  p_Protocol :: string
  p_Name :: string

record Server =
  sv_Port :: "Port option"
  sv_Hosts :: "string list"
  sv_Tls :: "ServerTLSSettings option"

record IstioGateway =
  ig_Servers :: "Server list"
  ig_Selector :: "string \<rightharpoonup> string"

record ClientTLSSettings =
  ct_Mode :: TLSmode
  ct_CredentialName :: string

record PortTrafficPolicy =
  pt_Port :: "PortSelector option"
  pt_Tls :: "ClientTLSSettings option"

record TrafficPolicy =
  tp_Tls :: "ClientTLSSettings option"
  tp_PortLevelSettings :: "PortTrafficPolicy list"

record DestinationRule =
  dr_Host :: string
  dr_TrafficPolicy :: "TrafficPolicy option"

subsection \<open>Status\<close>

record Condition =
  c_Type :: string
  c_Status :: string
  c_ObservedGeneration :: "64 word"
  c_LastTransitionTime :: Time
  c_Reason :: string
  c_Message :: string

record ListenerStatus =
  ls_Port :: int32
  ls_Protocol :: string
  ls_Hostname :: "string option"
  ls_Conditions :: "Condition list"

record GatewayAddress =
  ga_Type :: string
  ga_Value :: string

record GatewayStatus =
  gs_Addresses :: "GatewayAddress list"
  gs_Conditions :: "Condition list"
  gs_Listeners :: "ListenerStatus list"

record RouteGatewayStatus =
  rgs_GatewayRef :: GatewayReference
  rgs_Conditions :: "Condition list"

text \<open>
  \<open>config.Spec\<close> and \<open>config.Status\<close> are interfaces: a value carries its dynamic type,
  and a type assertion to another type panics. The constructors are the pointer types
  the program asserts; \<open>OtherSpec\<close> and \<open>OtherStatus\<close> stand for every other value, nil
  included. A status is held in a \<open>kstatus.WrappedStatus\<close>.
\<close>

datatype 's Spec =
    GatewayClassSpecP GatewayClassSpec
  | GatewaySpecP "'s GatewaySpec"
  | HTTPRouteSpecP HTTPRouteSpec
  | TCPRouteSpecP TCPRouteSpec
  | TLSRouteSpecP TLSRouteSpec
  | BackendPolicySpecP BackendPolicySpec
  | IstioGatewayP IstioGateway
  | VirtualServiceP VirtualService
  | DestinationRuleP DestinationRule
  | OtherSpec

datatype Status =
    GatewayClassStatusP "Condition list"
  | GatewayStatusP GatewayStatus
  | HTTPRouteStatusP "RouteGatewayStatus list"
  | TCPRouteStatusP "RouteGatewayStatus list"
  | TLSRouteStatusP "RouteGatewayStatus list"
  | OtherStatus

record 's Config =
  Meta :: Meta
  Spec :: "'s Spec"
  Status :: Status

record 's KubernetesResources =
  GatewayClass :: "'s Config list"
  Gateway :: "'s Config list"
  HTTPRoute :: "'s Config list"
  TCPRoute :: "'s Config list"
  TLSRoute :: "'s Config list"
  BackendPolicy :: "'s Config list"
  Namespaces :: "string \<rightharpoonup> Namespace"
  Domain :: string

record 's OutputResources =
  o_Gateway :: "'s Config list"
  o_VirtualService :: "'s Config list"
  o_DestinationRule :: "'s Config list"

section \<open>Library functions and constants\<close>

text \<open>
  The Go standard library functions the program calls on strings, on the bytes of the
  string. \<open>strings.ToLower\<close> is modelled on ASCII letters, which is what protocol names
  are made of; other bytes are left as they are.
\<close>

definition trimSuffix :: "string \<Rightarrow> string \<Rightarrow> string" where
  "trimSuffix s suffix =
     (if length suffix \<le> length s \<and> drop (length s - length suffix) s = suffix
      then take (length s - length suffix) s else s)"

definition backslash :: char where
  "backslash = CHR 0x5C"

definition specialBytes :: string where
  "specialBytes = backslash # ''.+*?()|[]{}^$''"

definition quoteMeta :: "string \<Rightarrow> string" where
  "quoteMeta s = concat (map (\<lambda>c. if c \<in> set specialBytes then [backslash, c] else [c]) s)"

fun split :: "char \<Rightarrow> string \<Rightarrow> string list" where
  "split sep [] = [[]]"
| "split sep (c # cs) =
     (if c = sep then [] # split sep cs
      else (case split sep cs of [] \<Rightarrow> [[c]] | x # xs \<Rightarrow> (c # x) # xs))"

definition toLower :: "string \<Rightarrow> string" where
  "toLower s = map (\<lambda>c. let n = (of_char c :: nat)
                          in if 65 \<le> n \<and> n \<le> 90 then char_of (n + 32) else c) s"

text \<open>Decimal printing, as \<open>%d\<close> and \<open>%v\<close> print an integer.\<close>

definition digit :: "nat \<Rightarrow> char" where
  "digit d = char_of (of_char CHR ''0'' + d)"

function showNat :: "nat \<Rightarrow> string" where
  "showNat n = (if n < 10 then [digit n] else showNat (n div 10) @ [digit (n mod 10)])"
  by pat_completeness auto
termination
  by (relation "measure (\<lambda>n. n)") auto

definition showInt :: "int \<Rightarrow> string" where
  "showInt i = (if i < 0 then CHR ''-'' # showNat (nat (- i)) else showNat (nat i))"

text \<open>
  Constants declared in packages of the repository that are not among the sources
  (\<open>pkg/config/constants\<close>, \<open>pkg/config/schema/gvk\<close>, \<open>pilot/pkg/model/kstatus\<close>) and in
  the gateway API, with the values they have there. \<open>canonicalGroup\<close> is the method
  \<open>CanonicalGroup\<close>: the empty group reads \<open>core\<close>.
\<close>

definition KubernetesGatewayName :: string where
  "KubernetesGatewayName = ''istio-autogenerated-k8s-gateway''"

definition IstioMeshGateway :: string where
  "IstioMeshGateway = ''mesh''"

definition IstioLabel :: string where
  "IstioLabel = ''istio''"

definition StatusTrue :: string where
  "StatusTrue = ''True''"

definition gvkGateway :: GroupVersionKind where
  "gvkGateway = \<lparr>gvk_Group = ''networking.istio.io'', gvk_Version = ''v1alpha3'', gvk_Kind = ''Gateway''\<rparr>"

definition gvkVirtualService :: GroupVersionKind where
  "gvkVirtualService =
     \<lparr>gvk_Group = ''networking.istio.io'', gvk_Version = ''v1alpha3'', gvk_Kind = ''VirtualService''\<rparr>"

definition gvkDestinationRule :: GroupVersionKind where
  "gvkDestinationRule =
     \<lparr>gvk_Group = ''networking.istio.io'', gvk_Version = ''v1alpha3'', gvk_Kind = ''DestinationRule''\<rparr>"

definition gvkService :: GroupVersionKind where
  "gvkService = \<lparr>gvk_Group = '''', gvk_Version = ''v1'', gvk_Kind = ''Service''\<rparr>"

definition gvkSecret :: GroupVersionKind where
  "gvkSecret = \<lparr>gvk_Group = '''', gvk_Version = ''v1'', gvk_Kind = ''Secret''\<rparr>"

definition canonicalGroup :: "GroupVersionKind \<Rightarrow> string" where
  "canonicalGroup g = (if gvk_Group g \<noteq> '''' then gvk_Group g else ''core'')"

definition RouteSelectAll :: string where "RouteSelectAll = ''All''"
definition RouteSelectSame :: string where "RouteSelectSame = ''Same''"
definition RouteSelectSelector :: string where "RouteSelectSelector = ''Selector''"

definition GatewayAllowAll :: string where "GatewayAllowAll = ''All''"
definition GatewayAllowFromList :: string where "GatewayAllowFromList = ''FromList''"
definition GatewayAllowSameNamespace :: string where "GatewayAllowSameNamespace = ''SameNamespace''"

definition TLSModeTerminate :: string where "TLSModeTerminate = ''Terminate''"
definition TLSModePassthrough :: string where "TLSModePassthrough = ''Passthrough''"

definition HTTPRouteFilterRequestHeaderModifier :: string where
  "HTTPRouteFilterRequestHeaderModifier = ''RequestHeaderModifier''"

definition HeaderMatchExact :: string where "HeaderMatchExact = ''Exact''"
definition HeaderMatchImplementationSpecific :: string where
  "HeaderMatchImplementationSpecific = ''ImplementationSpecific''"

definition PathMatchExact :: string where "PathMatchExact = ''Exact''"
definition PathMatchPrefix :: string where "PathMatchPrefix = ''Prefix''"
definition PathMatchRegularExpression :: string where
  "PathMatchRegularExpression = ''RegularExpression''"
definition PathMatchImplementationSpecific :: string where
  "PathMatchImplementationSpecific = ''ImplementationSpecific''"

definition ConditionRouteAdmitted :: string where "ConditionRouteAdmitted = ''Admitted''"
definition GatewayClassConditionStatusAdmitted :: string where
  "GatewayClassConditionStatusAdmitted = ''Admitted''"
definition ListenerConditionReady :: string where "ListenerConditionReady = ''Ready''"
definition GatewayConditionReady :: string where "GatewayConditionReady = ''Ready''"
definition GatewayConditionScheduled :: string where "GatewayConditionScheduled = ''Scheduled''"

text \<open>
  Modelled from the spec: \<open>kstatus.ConditionallyUpdateCondition\<close> and the \<open>Mutate\<close>
  method of \<open>kstatus.WrappedStatus\<close>, which are not among the sources. The status
  reconciler replaces an existing condition of the same type only if status, reason,
  message or observed generation differ (never for the timestamp alone), and appends the
  condition when there is none of its type. \<open>Mutate\<close> applies the given function to the
  wrapped status in place; here the new status is returned.
\<close>

definition sameCondition :: "Condition \<Rightarrow> Condition \<Rightarrow> bool" where
  "sameCondition a b \<longleftrightarrow>
     c_Status a = c_Status b \<and> c_Reason a = c_Reason b \<and> c_Message a = c_Message b
     \<and> c_ObservedGeneration a = c_ObservedGeneration b"

fun ConditionallyUpdateCondition :: "Condition list \<Rightarrow> Condition \<Rightarrow> Condition list" where
  "ConditionallyUpdateCondition [] condition = [condition]"
| "ConditionallyUpdateCondition (c # conditions) condition =
     (if c_Type c = c_Type condition
      then (if sameCondition c condition then c # conditions else condition # conditions)
      else c # ConditionallyUpdateCondition conditions condition)"

definition Mutate :: "(Status \<Rightarrow> error + Status) \<Rightarrow> Status \<Rightarrow> error + Status" where
  "Mutate f s = f s"

section \<open>The conversion\<close>

text \<open>
  A \<open>for .. range\<close> loop whose body may panic: the state is threaded through the
  elements in order and the first panic ends the loop.
\<close>

fun forEach :: "('a \<Rightarrow> 'st \<Rightarrow> error + 'st) \<Rightarrow> 'a list \<Rightarrow> 'st \<Rightarrow> error + 'st" where
  "forEach body [] st = Inr st"
| "forEach body (x # xs) st =
     (case body x st of Inl e \<Rightarrow> Inl e | Inr st' \<Rightarrow> forEach body xs st')"

text \<open>The loop variable \<open>i\<close> of \<open>for i, x := range xs\<close>.\<close>

definition indexed :: "'a list \<Rightarrow> (nat \<times> 'a) list" where
  "indexed xs = zip [0..<length xs] xs"

subsection \<open>The binding resolver\<close>

definition ControllerName :: string where
  "ControllerName = ''istio.io/gateway-controller''"

definition getGatewaySelectorFromSpec :: "'s Spec \<Rightarrow> RouteGateways option" where
  "getGatewaySelectorFromSpec spec =
     (case spec of
        HTTPRouteSpecP s \<Rightarrow> Some (hs_Gateways s)
      | TCPRouteSpecP s \<Rightarrow> Some (ts_Gateways s)
      | TLSRouteSpecP s \<Rightarrow> Some (ss_Gateways s)
      | _ \<Rightarrow> None)"

text \<open>
  \<open>isRouteMatch\<close>. Its first argument is the library's \<open>metav1.LabelSelectorAsSelector\<close>:
  it turns a label selector into a predicate on labels, or fails (\<open>None\<close>) on a selector
  that is not valid. A nil entry of the namespace map is an absent one.
\<close>

definition isRouteMatch ::
  "('s \<Rightarrow> (Labels \<Rightarrow> bool) option) \<Rightarrow> 's Config \<Rightarrow> Meta \<Rightarrow> 's RouteBindingSelector
     \<Rightarrow> (string \<rightharpoonup> Namespace) \<Rightarrow> bool" where
  "isRouteMatch labelSelectorAsSelector cfg gateway routes namespaces =
     (if rbs_Kind routes \<noteq> gvk_Kind (m_GroupVersionKind (Meta cfg)) then False
      else
        let grp = (if rbs_Group routes = '''' then ''networking.x-k8s.io'' else rbs_Group routes)
        in
        if grp \<noteq> gvk_Group (m_GroupVersionKind (Meta cfg)) then False
        else
          (case labelSelectorAsSelector (rbs_Selector routes) of
             None \<Rightarrow> False
           | Some ls \<Rightarrow>
               if \<not> ls (m_Labels (Meta cfg)) then False
               else
                 let namespaceSelector = rbs_Namespaces routes;
                     from = (if rn_From namespaceSelector = '''' then RouteSelectSame
                             else rn_From namespaceSelector)
                 in
                 if \<not> (if from = RouteSelectAll then True
                         else if from = RouteSelectSame
                         then m_Namespace gateway = m_Namespace (Meta cfg)
                         else if from = RouteSelectSelector
                         then (case labelSelectorAsSelector (rn_Selector namespaceSelector) of
                                 None \<Rightarrow> False
                               | Some ns \<Rightarrow>
                                   (case namespaces (m_Namespace (Meta cfg)) of
                                      None \<Rightarrow> False
                                    | Some namespace \<Rightarrow> ns (ns_Labels namespace)))
                         else True)
                 then False
                 else
                   let gatewaySelector =
                         (case getGatewaySelectorFromSpec (Spec cfg) of
                            None \<Rightarrow> \<lparr>rg_Allow = GatewayAllowSameNamespace, rg_GatewayRefs = []\<rparr>
                          | Some g \<Rightarrow> g)
                   in
                   if rg_Allow gatewaySelector = GatewayAllowAll then True
                   else if rg_Allow gatewaySelector = GatewayAllowFromList
                   then list_ex (\<lambda>gw. gr_Name gw = m_Name gateway
                                       \<and> gr_Namespace gw = m_Namespace gateway)
                          (rg_GatewayRefs gatewaySelector)
                   else if rg_Allow gatewaySelector = GatewayAllowSameNamespace
                   then m_Namespace gateway = m_Namespace (Meta cfg)
                   else True))"

definition fetchHTTPRoutes ::
  "('s \<Rightarrow> (Labels \<Rightarrow> bool) option) \<Rightarrow> 's KubernetesResources \<Rightarrow> Meta
     \<Rightarrow> 's RouteBindingSelector \<Rightarrow> 's Config list" where
  "fetchHTTPRoutes sel r gateway routes =
     filter (\<lambda>http. isRouteMatch sel http gateway routes (Namespaces r)) (HTTPRoute r)"

definition fetchTCPRoutes ::
  "('s \<Rightarrow> (Labels \<Rightarrow> bool) option) \<Rightarrow> 's KubernetesResources \<Rightarrow> Meta
     \<Rightarrow> 's RouteBindingSelector \<Rightarrow> 's Config list" where
  "fetchTCPRoutes sel r gateway routes =
     filter (\<lambda>tcp. isRouteMatch sel tcp gateway routes (Namespaces r)) (TCPRoute r)"

definition fetchTLSRoutes ::
  "('s \<Rightarrow> (Labels \<Rightarrow> bool) option) \<Rightarrow> 's KubernetesResources \<Rightarrow> Meta
     \<Rightarrow> 's RouteBindingSelector \<Rightarrow> 's Config list" where
  "fetchTLSRoutes sel r gateway routes =
     filter (\<lambda>tls. isRouteMatch sel tls gateway routes (Namespaces r)) (TLSRoute r)"

record RouteKey =
  rk_Gvk :: GroupVersionKind
  rk_Name :: string
  rk_Namespace :: string

definition toRouteKey :: "'s Config \<Rightarrow> RouteKey" where
  "toRouteKey c = \<lparr>rk_Gvk = m_GroupVersionKind (Meta c), rk_Name = m_Name (Meta c),
                   rk_Namespace = m_Namespace (Meta c)\<rparr>"

subsection \<open>Destination rules\<close>

definition emptyOrEqual :: "string \<Rightarrow> string \<Rightarrow> bool" where
  "emptyOrEqual have expected \<longleftrightarrow> have = '''' \<or> have = expected"

definition buildSecretReference :: "LocalObjectReference \<Rightarrow> string" where
  "buildSecretReference ref =
     (if \<not> emptyOrEqual (lor_Group ref) (canonicalGroup gvkSecret)
         \<or> \<not> emptyOrEqual (lor_Kind ref) (gvk_Kind gvkSecret)
      then '''' else lor_Name ref)"

definition emptyMeta :: Meta where
  "emptyMeta = \<lparr>m_GroupVersionKind = \<lparr>gvk_Group = '''', gvk_Version = '''', gvk_Kind = ''''\<rparr>,
                m_Name = '''', m_Namespace = '''', m_Domain = '''', m_Labels = Map.empty,
                m_Generation = 0, m_CreationTimestamp = 0\<rparr>"

text \<open>The destination rule for the backend reference number \<open>i\<close> of a policy, if supported.\<close>

definition destinationRuleFor ::
  "'s KubernetesResources \<Rightarrow> 's Config \<Rightarrow> BackendPolicySpec \<Rightarrow> nat \<times> BackendRef
     \<Rightarrow> 's Config list" where
  "destinationRuleFor r obj bp = (\<lambda>(i, ref).
     if emptyOrEqual (br_Group ref) (canonicalGroup gvkService)
        \<and> emptyOrEqual (br_Kind ref) (gvk_Kind gvkService)
     then
       let serviceName = br_Name ref @ ''.'' @ m_Namespace (Meta obj) @ ''.svc.'' @ Domain r;
           noTls = \<lparr>tp_Tls = None, tp_PortLevelSettings = []\<rparr>;
           trafficPolicy =
             (case bp_TLS bp of
                None \<Rightarrow> noTls
              | Some t \<Rightarrow>
                  (case bt_CertificateAuthorityRef t of
                     None \<Rightarrow> noTls
                   | Some ca \<Rightarrow>
                       let tls = \<lparr>ct_Mode = SIMPLE, ct_CredentialName = buildSecretReference ca\<rparr>
                       in (case br_Port ref of
                             Some port \<Rightarrow>
                               \<lparr>tp_Tls = None,
                                tp_PortLevelSettings =
                                  [\<lparr>pt_Port = Some \<lparr>ps_Number = port\<rparr>, pt_Tls = Some tls\<rparr>]\<rparr>
                           | None \<Rightarrow> \<lparr>tp_Tls = Some tls, tp_PortLevelSettings = []\<rparr>)));
           dr = \<lparr>dr_Host = serviceName, dr_TrafficPolicy = Some trafficPolicy\<rparr>
       in [\<lparr>Meta = emptyMeta
                \<lparr>m_CreationTimestamp := m_CreationTimestamp (Meta obj),
                 m_GroupVersionKind := gvkDestinationRule,
                 m_Name := m_Name (Meta obj) @ ''-'' @ showInt (int i) @ ''-'' @ KubernetesGatewayName,
                 m_Namespace := m_Namespace (Meta obj),
                 m_Domain := Domain r\<rparr>,
            Spec = DestinationRuleP dr, Status = OtherStatus\<rparr>]
     else [])"

definition convertDestinationRule :: "'s KubernetesResources \<Rightarrow> error + 's Config list" where
  "convertDestinationRule r =
     forEach (\<lambda>obj result.
        case Spec obj of
          BackendPolicySpecP bp \<Rightarrow>
            Inr (result @ concat (map (destinationRuleFor r obj bp) (indexed (bp_BackendRefs bp))))
        | _ \<Rightarrow> Inl InterfaceConversion)
       (BackendPolicy r) []"

subsection \<open>Routes\<close>

definition experimentalMeshGatewayName :: string where
  "experimentalMeshGatewayName = ''mesh''"

text \<open>
  \<open>createRouteStatus\<close>: one status entry per owning gateway (\<open>routeGatewayStatus\<close> is
  the body of its loop). \<open>s[1]\<close> panics when the gateway name has no slash. \<open>now\<close> is
  the reading of the clock (\<open>metav1.Now()\<close>); one reading serves a whole conversion.
\<close>

definition routeGatewayStatus ::
  "Time \<Rightarrow> 's Config \<Rightarrow> string \<Rightarrow> RouteGatewayStatus list \<Rightarrow> error + RouteGatewayStatus list" where
  "routeGatewayStatus now obj gw gws =
     (let conds = [\<lparr>c_Type = ConditionRouteAdmitted, c_Status = StatusTrue,
                    c_ObservedGeneration = m_Generation (Meta obj),
                    c_LastTransitionTime = now,
                    c_Reason = ''RouteAdmitted'', c_Message = ''Route admitted''\<rparr>]
      in
      if gw = IstioMeshGateway
      then Inr (gws @ [\<lparr>rgs_GatewayRef = \<lparr>gr_Name = experimentalMeshGatewayName,
                                             gr_Namespace = ''default''\<rparr>,
                         rgs_Conditions = conds\<rparr>])
      else
        let s = split CHR ''/'' gw
        in if length s \<le> 1 then Inl IndexOutOfRange
           else Inr (gws @ [\<lparr>rgs_GatewayRef = \<lparr>gr_Name = s ! 1, gr_Namespace = s ! 0\<rparr>,
                              rgs_Conditions = conds\<rparr>]))"

definition createRouteStatus ::
  "Time \<Rightarrow> string list \<Rightarrow> 's Config \<Rightarrow> error + RouteGatewayStatus list" where
  "createRouteStatus now gateways obj = forEach (routeGatewayStatus now obj) gateways []"

definition hostnameToStringList :: "string list \<Rightarrow> string list" where
  "hostnameToStringList h = map (\<lambda>i. i) h"

definition hostnamesToStringlist :: "string list \<Rightarrow> string list" where
  "hostnamesToStringlist h = map (\<lambda>i. i) h"

definition createHeadersFilter :: "HTTPRequestHeaderFilter option \<Rightarrow> Headers option" where
  "createHeadersFilter modifier =
     (case modifier of
        None \<Rightarrow> None
      | Some f \<Rightarrow> Some \<lparr>h_Request = Some \<lparr>ho_Set = hf_Set f, ho_Add = hf_Add f,
                                            ho_Remove = hf_Remove f\<rparr>\<rparr>)"

definition createHeadersMatch :: "HTTPRouteMatch \<Rightarrow> (string \<rightharpoonup> StringMatch)" where
  "createHeadersMatch match =
     (case rm_Headers match of
        None \<Rightarrow> Map.empty
      | Some h \<Rightarrow>
          if hm_Type h = '''' \<or> hm_Type h = HeaderMatchExact
             \<or> hm_Type h = HeaderMatchImplementationSpecific
          then (\<lambda>k. map_option Exact (hm_Values h k))
          else Map.empty)"

definition prefixMatchRegex :: string where
  "prefixMatchRegex = ''(('' @ [backslash] @ ''/).*)?''"

definition createURIMatch :: "HTTPRouteMatch \<Rightarrow> StringMatch option" where
  "createURIMatch match =
     (let path = rm_Path match in
      if pm_Type path = '''' \<or> pm_Type path = PathMatchImplementationSpecific
         \<or> pm_Type path = PathMatchPrefix
      then Some (Regex (quoteMeta (trimSuffix (pm_Value path) ''/'') @ prefixMatchRegex))
      else if pm_Type path = PathMatchExact then Some (Exact (pm_Value path))
      else if pm_Type path = PathMatchRegularExpression then Some (Regex (pm_Value path))
      else None)"

definition buildDestination :: "HTTPRouteForwardTo \<Rightarrow> string \<Rightarrow> string \<Rightarrow> Destination" where
  "buildDestination to ns domain =
     \<lparr>d_Host = (case hft_ServiceName to of
                  Some serviceName \<Rightarrow> serviceName @ ''.'' @ ns @ ''.svc.'' @ domain
                | None \<Rightarrow> ''''),
      d_Port = (case hft_Port to of Some port \<Rightarrow> Some \<lparr>ps_Number = port\<rparr> | None \<Rightarrow> None)\<rparr>"

definition buildGenericDestination :: "RouteForwardTo \<Rightarrow> string \<Rightarrow> string \<Rightarrow> Destination" where
  "buildGenericDestination to ns domain =
     \<lparr>d_Host = (case ft_ServiceName to of
                  Some serviceName \<Rightarrow> serviceName @ ''.'' @ ns @ ''.svc.'' @ domain
                | None \<Rightarrow> ''''),
      d_Port = (case ft_Port to of Some port \<Rightarrow> Some \<lparr>ps_Number = port\<rparr> | None \<Rightarrow> None)\<rparr>"

text \<open>
  The filters of a forwarding target or of a rule: each request-header modifier
  overwrites the headers set so far, every other filter is skipped with a warning.
\<close>

definition applyFilters :: "HTTPRouteFilter list \<Rightarrow> Headers option" where
  "applyFilters filters =
     foldl (\<lambda>headers filter.
              if rf_Type filter = HTTPRouteFilterRequestHeaderModifier
              then createHeadersFilter (rf_RequestHeaderModifier filter) else headers)
       None filters"

text \<open>
  \<open>buildHTTPDestination\<close> and \<open>buildTCPDestination\<close>: the weights are widened to
  \<open>int\<close>, normalized, and cut back to \<open>int32\<close>. \<open>httpDestination\<close> and
  \<open>tcpDestination\<close> are the bodies of their second loops; \<open>weights[i]\<close> panics out of
  range.
\<close>

definition httpDestination ::
  "goint list \<Rightarrow> string \<Rightarrow> string \<Rightarrow> nat \<times> HTTPRouteForwardTo \<Rightarrow> HTTPRouteDestination list
     \<Rightarrow> error + HTTPRouteDestination list" where
  "httpDestination weights ns domain = (\<lambda>(i, fwd) res.
     if length weights \<le> i then Inl IndexOutOfRange
     else Inr (res @ [\<lparr>hd_Destination = Some (buildDestination fwd ns domain),
                        hd_Weight = ucast (weights ! i),
                        hd_Headers = applyFilters (hft_Filters fwd)\<rparr>]))"

definition buildHTTPDestination ::
  "HTTPRouteForwardTo list \<Rightarrow> string \<Rightarrow> string \<Rightarrow> error + HTTPRouteDestination list" where
  "buildHTTPDestination action ns domain =
     (if action = [] then Inr []
      else
        case standardizeWeights (map (\<lambda>w. scast (hft_Weight w)) action) of
          Inl e \<Rightarrow> Inl e
        | Inr weights \<Rightarrow> forEach (httpDestination weights ns domain) (indexed action) [])"

definition tcpDestination ::
  "goint list \<Rightarrow> string \<Rightarrow> string \<Rightarrow> nat \<times> RouteForwardTo \<Rightarrow> RouteDestination list
     \<Rightarrow> error + RouteDestination list" where
  "tcpDestination weights ns domain = (\<lambda>(i, fwd) res.
     if length weights \<le> i then Inl IndexOutOfRange
     else Inr (res @ [\<lparr>rd_Destination = Some (buildGenericDestination fwd ns domain),
                        rd_Weight = ucast (weights ! i)\<rparr>]))"

definition buildTCPDestination ::
  "RouteForwardTo list \<Rightarrow> string \<Rightarrow> string \<Rightarrow> error + RouteDestination list" where
  "buildTCPDestination action ns domain =
     (if length action = 0 then Inr []
      else
        case standardizeWeights (map (\<lambda>w. scast (ft_Weight w)) action) of
          Inl e \<Rightarrow> Inl e
        | Inr weights \<Rightarrow> forEach (tcpDestination weights ns domain) (indexed action) [])"

definition buildTCPMatch :: "TCPRouteMatch list \<Rightarrow> L4MatchAttributes list" where
  "buildTCPMatch m = []"

definition buildTLSMatch :: "TLSRouteMatch list \<Rightarrow> TLSMatchAttributes list" where
  "buildTLSMatch match =
     (if length match = 0 then [\<lparr>ta_SniHosts = [''*'']\<rparr>]
      else map (\<lambda>m. \<lparr>ta_SniHosts = hostnamesToStringlist (sm_SNIs m)\<rparr>) match)"

text \<open>
  The three builders assert the type of the spec, then write the route status through
  \<open>Mutate\<close> (the function given to it asserts the type of the status), then build
  the rules. Each returns the route with its new status next to the virtual service.
  \<open>virtualServiceMeta\<close> is the metadata of the virtual service, with its derived name.
\<close>

definition virtualServiceMeta :: "'s Config \<Rightarrow> string \<Rightarrow> string \<Rightarrow> Meta" where
  "virtualServiceMeta obj name domain =
     emptyMeta\<lparr>m_CreationTimestamp := m_CreationTimestamp (Meta obj),
               m_GroupVersionKind := gvkVirtualService,
               m_Name := name,
               m_Namespace := m_Namespace (Meta obj),
               m_Domain := domain\<rparr>"

definition writeHTTPRouteStatus :: "Time \<Rightarrow> string list \<Rightarrow> 's Config \<Rightarrow> Status \<Rightarrow> error + Status" where
  "writeHTTPRouteStatus now gateways obj s =
     (case s of
        HTTPRouteStatusP rs \<Rightarrow>
          (case createRouteStatus now gateways obj of
             Inl e \<Rightarrow> Inl e
           | Inr gws \<Rightarrow> Inr (HTTPRouteStatusP gws))
      | _ \<Rightarrow> Inl InterfaceConversion)"

definition writeTCPRouteStatus :: "Time \<Rightarrow> string list \<Rightarrow> 's Config \<Rightarrow> Status \<Rightarrow> error + Status" where
  "writeTCPRouteStatus now gateways obj s =
     (case s of
        TCPRouteStatusP rs \<Rightarrow>
          (case createRouteStatus now gateways obj of
             Inl e \<Rightarrow> Inl e
           | Inr gws \<Rightarrow> Inr (TCPRouteStatusP gws))
      | _ \<Rightarrow> Inl InterfaceConversion)"

definition writeTLSRouteStatus :: "Time \<Rightarrow> string list \<Rightarrow> 's Config \<Rightarrow> Status \<Rightarrow> error + Status" where
  "writeTLSRouteStatus now gateways obj s =
     (case s of
        TLSRouteStatusP rs \<Rightarrow>
          (case createRouteStatus now gateways obj of
             Inl e \<Rightarrow> Inl e
           | Inr gws \<Rightarrow> Inr (TLSRouteStatusP gws))
      | _ \<Rightarrow> Inl InterfaceConversion)"

text \<open>The bodies of the loops over the rules of a route.\<close>

definition httpRule ::
  "'s Config \<Rightarrow> string \<Rightarrow> HTTPRouteRule \<Rightarrow> IstioHTTPRoute list \<Rightarrow> error + IstioHTTPRoute list" where
  "httpRule obj domain r httproutes =
     (case buildHTTPDestination (hr_ForwardTo r) (m_Namespace (Meta obj)) domain of
        Inl e \<Rightarrow> Inl e
      | Inr dests \<Rightarrow>
          Inr (httproutes @
               [\<lparr>ih_Match = map (\<lambda>match. \<lparr>mr_Uri = createURIMatch match,
                                            mr_Headers = createHeadersMatch match\<rparr>)
                               (hr_Matches r),
                 ih_Route = dests,
                 ih_Headers = applyFilters (hr_Filters r)\<rparr>]))"

definition tcpRule ::
  "'s Config \<Rightarrow> string \<Rightarrow> TCPRouteRule \<Rightarrow> IstioTCPRoute list \<Rightarrow> error + IstioTCPRoute list" where
  "tcpRule obj domain r routes =
     (case buildTCPDestination (tr_ForwardTo r) (m_Namespace (Meta obj)) domain of
        Inl e \<Rightarrow> Inl e
      | Inr dests \<Rightarrow> Inr (routes @ [\<lparr>it_Match = buildTCPMatch (tr_Matches r), it_Route = dests\<rparr>]))"

definition tlsRule ::
  "'s Config \<Rightarrow> string \<Rightarrow> TLSRouteRule \<Rightarrow> IstioTLSRoute list \<Rightarrow> error + IstioTLSRoute list" where
  "tlsRule obj domain r routes =
     (case buildTCPDestination (sr_ForwardTo r) (m_Namespace (Meta obj)) domain of
        Inl e \<Rightarrow> Inl e
      | Inr dests \<Rightarrow> Inr (routes @ [\<lparr>il_Match = buildTLSMatch (sr_Matches r), il_Route = dests\<rparr>]))"

definition buildHTTPVirtualServices ::
  "Time \<Rightarrow> 's Config \<Rightarrow> string list \<Rightarrow> string \<Rightarrow> error + ('s Config \<times> 's Config list)" where
  "buildHTTPVirtualServices now obj gateways domain =
     (case Spec obj of
        HTTPRouteSpecP route \<Rightarrow>
          (case Mutate (writeHTTPRouteStatus now gateways obj) (Status obj) of
             Inl e \<Rightarrow> Inl e
           | Inr status \<Rightarrow>
               (case forEach (httpRule obj domain) (hs_Rules route) [] of
                  Inl e \<Rightarrow> Inl e
                | Inr httproutes \<Rightarrow>
                    Inr (obj\<lparr>Status := status\<rparr>,
                         [\<lparr>Meta = virtualServiceMeta obj
                                    (m_Name (Meta obj) @ ''-'' @ KubernetesGatewayName) domain,
                           Spec = VirtualServiceP
                                    \<lparr>vs_Hosts = hostnameToStringList (hs_Hostnames route),
                                     vs_Gateways = gateways, vs_Http = httproutes,
                                     vs_Tls = [], vs_Tcp = []\<rparr>,
                           Status = OtherStatus\<rparr>])))
      | _ \<Rightarrow> Inl InterfaceConversion)"

definition buildTCPVirtualService ::
  "Time \<Rightarrow> 's Config \<Rightarrow> string list \<Rightarrow> string \<Rightarrow> error + ('s Config \<times> 's Config)" where
  "buildTCPVirtualService now obj gateways domain =
     (case Spec obj of
        TCPRouteSpecP route \<Rightarrow>
          (case Mutate (writeTCPRouteStatus now gateways obj) (Status obj) of
             Inl e \<Rightarrow> Inl e
           | Inr status \<Rightarrow>
               (case forEach (tcpRule obj domain) (ts_Rules route) [] of
                  Inl e \<Rightarrow> Inl e
                | Inr routes \<Rightarrow>
                    Inr (obj\<lparr>Status := status\<rparr>,
                         \<lparr>Meta = virtualServiceMeta obj
                                   (m_Name (Meta obj) @ ''-tcp-'' @ KubernetesGatewayName) domain,
                          Spec = VirtualServiceP
                                   \<lparr>vs_Hosts = [''*''], vs_Gateways = gateways, vs_Http = [],
                                    vs_Tls = [], vs_Tcp = routes\<rparr>,
                          Status = OtherStatus\<rparr>)))
      | _ \<Rightarrow> Inl InterfaceConversion)"

definition buildTLSVirtualService ::
  "Time \<Rightarrow> 's Config \<Rightarrow> string list \<Rightarrow> string \<Rightarrow> error + ('s Config \<times> 's Config)" where
  "buildTLSVirtualService now obj gateways domain =
     (case Spec obj of
        TLSRouteSpecP route \<Rightarrow>
          (case Mutate (writeTLSRouteStatus now gateways obj) (Status obj) of
             Inl e \<Rightarrow> Inl e
           | Inr status \<Rightarrow>
               (case forEach (tlsRule obj domain) (ss_Rules route) [] of
                  Inl e \<Rightarrow> Inl e
                | Inr routes \<Rightarrow>
                    Inr (obj\<lparr>Status := status\<rparr>,
                         \<lparr>Meta = virtualServiceMeta obj
                                   (m_Name (Meta obj) @ ''-tls-'' @ KubernetesGatewayName) domain,
                          Spec = VirtualServiceP
                                   \<lparr>vs_Hosts = [''*''], vs_Gateways = gateways, vs_Http = [],
                                    vs_Tls = routes, vs_Tcp = []\<rparr>,
                          Status = OtherStatus\<rparr>)))
      | _ \<Rightarrow> Inl InterfaceConversion)"

text \<open>
  \<open>convertVirtualService\<close>: TCP routes, then TLS routes, then HTTP routes; a route that
  is no key of the ownership map is skipped. The three step functions are the bodies of
  its loops; their state is the list of virtual services and the routes as the loop leaves
  them. The result is the list of virtual services and the three route lists with the
  statuses written.
\<close>

definition tcpRouteStep ::
  "Time \<Rightarrow> 's KubernetesResources \<Rightarrow> (RouteKey \<rightharpoonup> string list) \<Rightarrow> 's Config
     \<Rightarrow> 's Config list \<times> 's Config list \<Rightarrow> error + ('s Config list \<times> 's Config list)" where
  "tcpRouteStep now r routeMap = (\<lambda>obj (result, objs).
     case routeMap (toRouteKey obj) of
       None \<Rightarrow> Inr (result, objs @ [obj])
     | Some gateways \<Rightarrow>
         (case buildTCPVirtualService now obj gateways (Domain r) of
            Inl e \<Rightarrow> Inl e
          | Inr (obj', vsConfig) \<Rightarrow> Inr (result @ [vsConfig], objs @ [obj'])))"

definition tlsRouteStep ::
  "Time \<Rightarrow> 's KubernetesResources \<Rightarrow> (RouteKey \<rightharpoonup> string list) \<Rightarrow> 's Config
     \<Rightarrow> 's Config list \<times> 's Config list \<Rightarrow> error + ('s Config list \<times> 's Config list)" where
  "tlsRouteStep now r routeMap = (\<lambda>obj (result, objs).
     case routeMap (toRouteKey obj) of
       None \<Rightarrow> Inr (result, objs @ [obj])
     | Some gateways \<Rightarrow>
         (case buildTLSVirtualService now obj gateways (Domain r) of
            Inl e \<Rightarrow> Inl e
          | Inr (obj', vsConfig) \<Rightarrow> Inr (result @ [vsConfig], objs @ [obj'])))"

definition httpRouteStep ::
  "Time \<Rightarrow> 's KubernetesResources \<Rightarrow> (RouteKey \<rightharpoonup> string list) \<Rightarrow> 's Config
     \<Rightarrow> 's Config list \<times> 's Config list \<Rightarrow> error + ('s Config list \<times> 's Config list)" where
  "httpRouteStep now r routeMap = (\<lambda>obj (result, objs).
     case routeMap (toRouteKey obj) of
       None \<Rightarrow> Inr (result, objs @ [obj])
     | Some gateways \<Rightarrow>
         (case buildHTTPVirtualServices now obj gateways (Domain r) of
            Inl e \<Rightarrow> Inl e
          | Inr (obj', vsConfigs) \<Rightarrow> Inr (result @ vsConfigs, objs @ [obj'])))"

definition convertVirtualService ::
  "Time \<Rightarrow> 's KubernetesResources \<Rightarrow> (RouteKey \<rightharpoonup> string list)
     \<Rightarrow> error + ('s Config list \<times> 's Config list \<times> 's Config list \<times> 's Config list)" where
  "convertVirtualService now r routeMap =
     (case forEach (tcpRouteStep now r routeMap) (TCPRoute r) ([], []) of
        Inl e \<Rightarrow> Inl e
      | Inr (result1, tcp) \<Rightarrow>
          (case forEach (tlsRouteStep now r routeMap) (TLSRoute r) (result1, []) of
             Inl e \<Rightarrow> Inl e
           | Inr (result2, tls) \<Rightarrow>
               (case forEach (httpRouteStep now r routeMap) (HTTPRoute r) (result2, []) of
                  Inl e \<Rightarrow> Inl e
                | Inr (result3, http) \<Rightarrow> Inr (result3, tcp, tls, http))))"

subsection \<open>Gateways\<close>

text \<open>
  \<open>getGatewayClasses\<close>: the names of the classes this controller owns, each marked
  admitted in its status (\<open>writeClassStatus\<close> is the function given to \<open>Mutate\<close>,
  \<open>classStep\<close> the body of the loop). The result carries the classes with their new
  statuses.
\<close>

definition writeClassStatus :: "Time \<Rightarrow> 's Config \<Rightarrow> Status \<Rightarrow> error + Status" where
  "writeClassStatus now obj s =
     (case s of
        GatewayClassStatusP conditions \<Rightarrow>
          Inr (GatewayClassStatusP
                 (ConditionallyUpdateCondition conditions
                    \<lparr>c_Type = GatewayClassConditionStatusAdmitted, c_Status = StatusTrue,
                     c_ObservedGeneration = m_Generation (Meta obj),
                     c_LastTransitionTime = now,
                     c_Reason = ''Handled'', c_Message = ''Handled by Istio controller''\<rparr>))
      | _ \<Rightarrow> Inl InterfaceConversion)"

definition classStep ::
  "Time \<Rightarrow> 's Config \<Rightarrow> string set \<times> 's Config list \<Rightarrow> error + (string set \<times> 's Config list)" where
  "classStep now = (\<lambda>obj (classes, objs).
     case Spec obj of
       GatewayClassSpecP gwc \<Rightarrow>
         if gc_Controller gwc = ControllerName
         then
           (case Mutate (writeClassStatus now obj) (Status obj) of
              Inl e \<Rightarrow> Inl e
            | Inr status \<Rightarrow> Inr (insert (m_Name (Meta obj)) classes, objs @ [obj\<lparr>Status := status\<rparr>]))
         else Inr (classes, objs @ [obj])
     | _ \<Rightarrow> Inl InterfaceConversion)"

definition getGatewayClasses ::
  "Time \<Rightarrow> 's KubernetesResources \<Rightarrow> error + (string set \<times> 's Config list)" where
  "getGatewayClasses now r = forEach (classStep now) (GatewayClass r) ({}, [])"

definition buildSecretReferenceTLS :: "GatewayTLSConfig \<Rightarrow> ServerTLSSettings option" where
  "buildSecretReferenceTLS tls =
     (case tls_CertificateRef tls of
        None \<Rightarrow> None
      | Some ref \<Rightarrow> Some \<lparr>st_HttpsRedirect = False, st_Mode = SIMPLE,
                           st_CredentialName = buildSecretReference ref\<rparr>)"

text \<open>
  \<open>buildTLS\<close>. A mode that is neither empty, \<open>Terminate\<close> nor \<open>Passthrough\<close> leaves
  the settings at their zero value, whose mode is the first of the enumeration
  (\<open>PASSTHROUGH\<close> in the mesh API).
\<close>

definition buildTLS :: "GatewayTLSConfig option \<Rightarrow> ServerTLSSettings option" where
  "buildTLS tls =
     (case tls of
        None \<Rightarrow> None
      | Some t \<Rightarrow>
          if tls_Mode t = '''' \<or> tls_Mode t = TLSModeTerminate
          then buildSecretReferenceTLS t
          else if tls_Mode t = TLSModePassthrough
          then Some \<lparr>st_HttpsRedirect = False, st_Mode = PASSTHROUGH, st_CredentialName = ''''\<rparr>
          else Some \<lparr>st_HttpsRedirect = False, st_Mode = PASSTHROUGH, st_CredentialName = ''''\<rparr>)"

definition buildHostnameMatch :: "string option \<Rightarrow> string list" where
  "buildHostnameMatch hostname =
     (case hostname of
        None \<Rightarrow> [''*'']
      | Some h \<Rightarrow> if h = '''' then [''*''] else [h])"

text \<open>\<open>routeToGateway[k] = append(routeToGateway[k], name)\<close>; a missing key reads as nil.\<close>

definition appendOwner ::
  "string \<Rightarrow> (RouteKey \<rightharpoonup> string list) \<Rightarrow> RouteKey \<Rightarrow> (RouteKey \<rightharpoonup> string list)" where
  "appendOwner name routeToGateway k =
     routeToGateway(k \<mapsto> (case routeToGateway k of None \<Rightarrow> [] | Some gws \<Rightarrow> gws) @ [name])"

definition fetchMeshRoutes :: "'s KubernetesResources \<Rightarrow> RouteKey list" where
  "fetchMeshRoutes r =
     concat (map (\<lambda>hr.
        case getGatewaySelectorFromSpec (Spec hr) of
          None \<Rightarrow> []
        | Some gatewaySelector \<Rightarrow>
            if length (rg_GatewayRefs gatewaySelector) = 0 then []
            else concat (map (\<lambda>ref. if gr_Name ref = experimentalMeshGatewayName
                                      then [toRouteKey hr] else [])
                           (rg_GatewayRefs gatewaySelector)))
       (HTTPRoute r))"

text \<open>
  The body of the listener loop of \<open>convertGateway\<close> for listener number \<open>i\<close> of the
  gateway \<open>obj\<close>, in its three parts. First the function given to \<open>Mutate\<close>: the
  listener status number \<open>i\<close> is rewritten (\<open>gs.Listeners[i]\<close> panics out of range).
\<close>

definition writeListenerStatus :: "Time \<Rightarrow> 's Config \<Rightarrow> nat \<Rightarrow> 's Listener \<Rightarrow> Status \<Rightarrow> error + Status" where
  "writeListenerStatus now obj i l s =
     (case s of
        GatewayStatusP gs \<Rightarrow>
          if length (gs_Listeners gs) \<le> i then Inl IndexOutOfRange
          else
            let cond = ConditionallyUpdateCondition (ls_Conditions (gs_Listeners gs ! i))
                         \<lparr>c_Type = ListenerConditionReady, c_Status = StatusTrue,
                          c_ObservedGeneration = m_Generation (Meta obj),
                          c_LastTransitionTime = now,
                          c_Reason = ''ListenerReady'', c_Message = ''No error found''\<rparr>
            in Inr (GatewayStatusP
                      (gs\<lparr>gs_Listeners := (gs_Listeners gs)
                             [i := \<lparr>ls_Port = l_Port l, ls_Protocol = l_Protocol l,
                                    ls_Hostname = l_Hostname l, ls_Conditions = cond\<rparr>]\<rparr>))
      | _ \<Rightarrow> Inl InterfaceConversion)"

text \<open>The server of the listener.\<close>

definition listenerServer :: "'s Config \<Rightarrow> 's Listener \<Rightarrow> Server" where
  "listenerServer obj l =
     \<lparr>sv_Port = Some \<lparr>p_Number = l_Port l, p_Protocol = l_Protocol l,
                      p_Name = toLower (l_Protocol l) @ ''-'' @ showInt (sint (l_Port l))
                               @ ''-gateway-'' @ m_Name (Meta obj) @ ''-'' @ m_Namespace (Meta obj)\<rparr>,
      sv_Hosts = buildHostnameMatch (l_Hostname l),
      sv_Tls = buildTLS (l_TLS l)\<rparr>"

text \<open>
  The three loops over the routes the listener selects: the gateway becomes an owner of
  each, HTTP routes first, then TCP, then TLS.
\<close>

definition bindRoutes ::
  "('s \<Rightarrow> (Labels \<Rightarrow> bool) option) \<Rightarrow> 's KubernetesResources \<Rightarrow> 's Config \<Rightarrow> string \<Rightarrow> 's Listener
     \<Rightarrow> (RouteKey \<rightharpoonup> string list) \<Rightarrow> (RouteKey \<rightharpoonup> string list)" where
  "bindRoutes sel r obj name l routeToGateway =
     (let owner = m_Namespace (Meta obj) @ ''/'' @ name;
          m1 = foldl (\<lambda>m http. appendOwner owner m (toRouteKey http)) routeToGateway
                 (fetchHTTPRoutes sel r (Meta obj) (l_Routes l));
          m2 = foldl (\<lambda>m tcp. appendOwner owner m (toRouteKey tcp)) m1
                 (fetchTCPRoutes sel r (Meta obj) (l_Routes l))
      in foldl (\<lambda>m tls. appendOwner owner m (toRouteKey tls)) m2
           (fetchTLSRoutes sel r (Meta obj) (l_Routes l)))"

text \<open>The loop body. The state is the gateway status, the servers and the ownership map.\<close>

definition listenerStep ::
  "('s \<Rightarrow> (Labels \<Rightarrow> bool) option) \<Rightarrow> Time \<Rightarrow> 's KubernetesResources \<Rightarrow> 's Config \<Rightarrow> string
     \<Rightarrow> nat \<times> 's Listener
     \<Rightarrow> Status \<times> Server list \<times> (RouteKey \<rightharpoonup> string list)
     \<Rightarrow> error + (Status \<times> Server list \<times> (RouteKey \<rightharpoonup> string list))" where
  "listenerStep sel now r obj name = (\<lambda>(i, l) (status, servers, routeToGateway).
     case Mutate (writeListenerStatus now obj i l) status of
       Inl e \<Rightarrow> Inl e
     | Inr status' \<Rightarrow>
         Inr (status', servers @ [listenerServer obj l], bindRoutes sel r obj name l routeToGateway))"

text \<open>
  The body of the gateway loop. The function given to the first \<open>Mutate\<close> empties the
  addresses and resets the listener statuses when their number differs from the number of
  listeners; the one given to the last \<open>Mutate\<close> writes the two gateway conditions.
\<close>

definition prepareGatewayStatus :: "'s GatewaySpec \<Rightarrow> Status \<Rightarrow> error + Status" where
  "prepareGatewayStatus kgw s =
     (case s of
        GatewayStatusP gs \<Rightarrow>
          Inr (GatewayStatusP
                 (gs\<lparr>gs_Addresses := [],
                     gs_Listeners :=
                       (if length (gs_Listeners gs) \<noteq> length (g_Listeners kgw)
                        then replicate (length (g_Listeners kgw))
                               \<lparr>ls_Port = 0, ls_Protocol = '''', ls_Hostname = None,
                                ls_Conditions = []\<rparr>
                        else gs_Listeners gs)\<rparr>))
      | _ \<Rightarrow> Inl InterfaceConversion)"

definition writeGatewayConditions :: "Time \<Rightarrow> 's Config \<Rightarrow> Status \<Rightarrow> error + Status" where
  "writeGatewayConditions now obj s =
     (case s of
        GatewayStatusP gs \<Rightarrow>
          let c1 = ConditionallyUpdateCondition (gs_Conditions gs)
                     \<lparr>c_Type = GatewayConditionReady, c_Status = StatusTrue,
                      c_ObservedGeneration = m_Generation (Meta obj),
                      c_LastTransitionTime = now,
                      c_Reason = ''ListenersValid'', c_Message = ''Listeners valid''\<rparr>;
              c2 = ConditionallyUpdateCondition c1
                     \<lparr>c_Type = GatewayConditionScheduled, c_Status = StatusTrue,
                      c_ObservedGeneration = m_Generation (Meta obj),
                      c_LastTransitionTime = now,
                      c_Reason = ''ResourcesAvailable'', c_Message = ''Resources available''\<rparr>
          in Inr (GatewayStatusP (gs\<lparr>gs_Conditions := c2\<rparr>))
      | _ \<Rightarrow> Inl InterfaceConversion)"

definition gatewayConfig :: "'s KubernetesResources \<Rightarrow> 's Config \<Rightarrow> string \<Rightarrow> Server list \<Rightarrow> 's Config" where
  "gatewayConfig r obj name servers =
     \<lparr>Meta = emptyMeta
         \<lparr>m_CreationTimestamp := m_CreationTimestamp (Meta obj),
          m_GroupVersionKind := gvkGateway,
          m_Name := name,
          m_Namespace := m_Namespace (Meta obj),
          m_Domain := Domain r\<rparr>,
      Spec = IstioGatewayP \<lparr>ig_Servers = servers, ig_Selector = [IstioLabel \<mapsto> ''ingressgateway'']\<rparr>,
      Status = OtherStatus\<rparr>"

text \<open>
  A gateway whose class is not ours is skipped. The state of the loop is the list of
  gateway configs, the ownership map and the gateways with their new statuses.
\<close>

definition gatewayStep ::
  "('s \<Rightarrow> (Labels \<Rightarrow> bool) option) \<Rightarrow> Time \<Rightarrow> 's KubernetesResources \<Rightarrow> string set
     \<Rightarrow> 's Config
     \<Rightarrow> 's Config list \<times> (RouteKey \<rightharpoonup> string list) \<times> 's Config list
     \<Rightarrow> error + ('s Config list \<times> (RouteKey \<rightharpoonup> string list) \<times> 's Config list)" where
  "gatewayStep sel now r classes = (\<lambda>obj (result, routeToGateway, objs).
     case Spec obj of
       GatewaySpecP kgw \<Rightarrow>
         if g_GatewayClassName kgw \<notin> classes then Inr (result, routeToGateway, objs @ [obj])
         else
           (case Mutate (prepareGatewayStatus kgw) (Status obj) of
              Inl e \<Rightarrow> Inl e
            | Inr status0 \<Rightarrow>
                let name = m_Name (Meta obj) @ ''-'' @ KubernetesGatewayName
                in
                (case forEach (listenerStep sel now r obj name) (indexed (g_Listeners kgw))
                        (status0, [], routeToGateway) of
                   Inl e \<Rightarrow> Inl e
                 | Inr (status1, servers, routeToGateway') \<Rightarrow>
                     (case Mutate (writeGatewayConditions now obj) status1 of
                        Inl e \<Rightarrow> Inl e
                      | Inr status2 \<Rightarrow>
                          Inr (result @ [gatewayConfig r obj name servers], routeToGateway',
                               objs @ [obj\<lparr>Status := status2\<rparr>]))))
     | _ \<Rightarrow> Inl InterfaceConversion)"

text \<open>
  \<open>convertGateway\<close> returns the gateway configs and the ownership map; with them the
  model returns the gateway classes and the gateways as the run leaves them.
\<close>

definition convertGateway ::
  "('s \<Rightarrow> (Labels \<Rightarrow> bool) option) \<Rightarrow> Time \<Rightarrow> 's KubernetesResources
     \<Rightarrow> error + ('s Config list \<times> (RouteKey \<rightharpoonup> string list) \<times> 's Config list \<times> 's Config list)" where
  "convertGateway sel now r =
     (case getGatewayClasses now r of
        Inl e \<Rightarrow> Inl e
      | Inr (classes, gatewayClasses) \<Rightarrow>
          (case forEach (gatewayStep sel now r classes) (Gateway r) ([], Map.empty, []) of
             Inl e \<Rightarrow> Inl e
           | Inr (result, routeToGateway, gateways) \<Rightarrow>
               Inr (result,
                    foldl (appendOwner experimentalMeshGatewayName) routeToGateway (fetchMeshRoutes r),
                    gatewayClasses, gateways)))"

subsection \<open>The orchestrator\<close>

text \<open>
  \<open>convertResources\<close>: the output bundle, and the snapshot as the run leaves it (the
  statuses are written in place in the Go code).
\<close>

definition convertResources ::
  "('s \<Rightarrow> (Labels \<Rightarrow> bool) option) \<Rightarrow> Time \<Rightarrow> 's KubernetesResources
     \<Rightarrow> error + ('s OutputResources \<times> 's KubernetesResources)" where
  "convertResources sel now r =
     (case convertGateway sel now r of
        Inl e \<Rightarrow> Inl e
      | Inr (gw, routeMap, gatewayClasses, gateways) \<Rightarrow>
          (case convertVirtualService now r routeMap of
             Inl e \<Rightarrow> Inl e
           | Inr (vs, tcp, tls, http) \<Rightarrow>
               (case convertDestinationRule r of
                  Inl e \<Rightarrow> Inl e
                | Inr dr \<Rightarrow>
                    Inr (\<lparr>o_Gateway = gw, o_VirtualService = vs, o_DestinationRule = dr\<rparr>,
                         r\<lparr>GatewayClass := gatewayClasses, Gateway := gateways,
                           TCPRoute := tcp, TLSRoute := tls, HTTPRoute := http\<rparr>))))"

section \<open>Auxiliary definitions for the results\<close>

text \<open>The owners the ownership map records for a key: none when the key is absent.\<close>

definition owners :: "(RouteKey \<rightharpoonup> string list) \<Rightarrow> RouteKey \<Rightarrow> string list" where
  "owners routeToGateway k = (case routeToGateway k of None \<Rightarrow> [] | Some gws \<Rightarrow> gws)"

text \<open>
  Example resources, used to show that the hypotheses of the results can be met. Their
  label selectors are trivial: every selector matches every set of labels.
\<close>

definition exSel :: "unit \<Rightarrow> (Labels \<Rightarrow> bool) option" where
  "exSel s = Some (\<lambda>labels. True)"

definition exMeta :: "string \<Rightarrow> string \<Rightarrow> string \<Rightarrow> Meta" where
  "exMeta kind name ns =
     emptyMeta\<lparr>m_GroupVersionKind := \<lparr>gvk_Group = ''networking.x-k8s.io'', gvk_Version = ''v1alpha1'',
                                        gvk_Kind = kind\<rparr>,
               m_Name := name, m_Namespace := ns\<rparr>"

definition exHTTPRoute :: "string \<Rightarrow> string \<Rightarrow> RouteGateways \<Rightarrow> HTTPRouteRule list \<Rightarrow> unit Config" where
  "exHTTPRoute name ns gateways rules =
     \<lparr>Meta = exMeta ''HTTPRoute'' name ns,
      Spec = HTTPRouteSpecP \<lparr>hs_Gateways = gateways, hs_Hostnames = [], hs_Rules = rules\<rparr>,
      Status = HTTPRouteStatusP []\<rparr>"

definition exRoutes :: "unit RouteBindingSelector" where
  "exRoutes = \<lparr>rbs_Namespaces = \<lparr>rn_From = ''All'', rn_Selector = ()\<rparr>, rbs_Selector = (),
               rbs_Group = '''', rbs_Kind = ''HTTPRoute''\<rparr>"

definition exMeshRoute :: "unit Config" where
  "exMeshRoute =
     exHTTPRoute ''r'' ''a''
       \<lparr>rg_Allow = ''FromList'', rg_GatewayRefs = [\<lparr>gr_Name = ''mesh'', gr_Namespace = ''a''\<rparr>]\<rparr> []"

definition exMeshSnapshot :: "unit KubernetesResources" where
  "exMeshSnapshot =
     \<lparr>GatewayClass = [], Gateway = [], HTTPRoute = [exMeshRoute], TCPRoute = [], TLSRoute = [],
      BackendPolicy = [], Namespaces = Map.empty, Domain = ''cluster.local''\<rparr>"

text \<open>
  What \<open>convertGateway\<close> computes, as functions of the snapshot: the status an
  admitted gateway is left with (\<open>gatewayAfter\<close>), its gateway config (\<open>gatewayOut\<close>),
  the owners its listeners add (\<open>gatewayBind\<close>), and the ownership map of the whole
  snapshot (\<open>routeMapOf\<close>). \<open>wellTypedGateways\<close> says that the specs and statuses the
  gateway converter asserts have the types it asserts; it says nothing of the listener
  statuses a gateway comes with.
\<close>

definition listenerStatusOf :: "Time \<Rightarrow> 's Config \<Rightarrow> 's Listener \<Rightarrow> ListenerStatus \<Rightarrow> ListenerStatus" where
  "listenerStatusOf now obj l old =
     \<lparr>ls_Port = l_Port l, ls_Protocol = l_Protocol l, ls_Hostname = l_Hostname l,
      ls_Conditions = ConditionallyUpdateCondition (ls_Conditions old)
                        \<lparr>c_Type = ListenerConditionReady, c_Status = StatusTrue,
                         c_ObservedGeneration = m_Generation (Meta obj),
                         c_LastTransitionTime = now,
                         c_Reason = ''ListenerReady'', c_Message = ''No error found''\<rparr>\<rparr>"

definition isOurClass :: "'s Config \<Rightarrow> bool" where
  "isOurClass obj = (case Spec obj of GatewayClassSpecP gwc \<Rightarrow> gc_Controller gwc = ControllerName | _ \<Rightarrow> False)"

definition ourClasses :: "'s KubernetesResources \<Rightarrow> string set" where
  "ourClasses r = set (map (\<lambda>obj. m_Name (Meta obj)) (filter isOurClass (GatewayClass r)))"

definition admitted :: "'s KubernetesResources \<Rightarrow> 's Config \<Rightarrow> bool" where
  "admitted r obj =
     (case Spec obj of GatewaySpecP kgw \<Rightarrow> g_GatewayClassName kgw \<in> ourClasses r | _ \<Rightarrow> False)"

definition isGatewayClassStatus :: "Status \<Rightarrow> bool" where
  "isGatewayClassStatus s = (case s of GatewayClassStatusP c \<Rightarrow> True | _ \<Rightarrow> False)"

definition isGatewayStatus :: "Status \<Rightarrow> bool" where
  "isGatewayStatus s = (case s of GatewayStatusP gs \<Rightarrow> True | _ \<Rightarrow> False)"

definition wellTypedClass :: "'s Config \<Rightarrow> bool" where
  "wellTypedClass obj =
     (case Spec obj of
        GatewayClassSpecP gwc \<Rightarrow> gc_Controller gwc \<noteq> ControllerName \<or> isGatewayClassStatus (Status obj)
      | _ \<Rightarrow> False)"

definition wellTypedGateway :: "string set \<Rightarrow> 's Config \<Rightarrow> bool" where
  "wellTypedGateway classes obj =
     (case Spec obj of
        GatewaySpecP kgw \<Rightarrow> g_GatewayClassName kgw \<notin> classes \<or> isGatewayStatus (Status obj)
      | _ \<Rightarrow> False)"

definition wellTypedGateways :: "'s KubernetesResources \<Rightarrow> bool" where
  "wellTypedGateways r \<longleftrightarrow>
     list_all wellTypedClass (GatewayClass r) \<and> list_all (wellTypedGateway (ourClasses r)) (Gateway r)"

definition gatewayName :: "'s Config \<Rightarrow> string" where
  "gatewayName obj = m_Name (Meta obj) @ ''-'' @ KubernetesGatewayName"

definition preparedListeners :: "'s GatewaySpec \<Rightarrow> GatewayStatus \<Rightarrow> ListenerStatus list" where
  "preparedListeners kgw gs =
     (if length (gs_Listeners gs) \<noteq> length (g_Listeners kgw)
      then replicate (length (g_Listeners kgw))
             \<lparr>ls_Port = 0, ls_Protocol = '''', ls_Hostname = None, ls_Conditions = []\<rparr>
      else gs_Listeners gs)"

definition gatewayConditionsAfter :: "Time \<Rightarrow> 's Config \<Rightarrow> Condition list \<Rightarrow> Condition list" where
  "gatewayConditionsAfter now obj conditions =
     ConditionallyUpdateCondition
       (ConditionallyUpdateCondition conditions
          \<lparr>c_Type = GatewayConditionReady, c_Status = StatusTrue,
           c_ObservedGeneration = m_Generation (Meta obj), c_LastTransitionTime = now,
           c_Reason = ''ListenersValid'', c_Message = ''Listeners valid''\<rparr>)
       \<lparr>c_Type = GatewayConditionScheduled, c_Status = StatusTrue,
        c_ObservedGeneration = m_Generation (Meta obj), c_LastTransitionTime = now,
        c_Reason = ''ResourcesAvailable'', c_Message = ''Resources available''\<rparr>"

definition gatewayStatusAfter :: "Time \<Rightarrow> 's Config \<Rightarrow> 's GatewaySpec \<Rightarrow> GatewayStatus \<Rightarrow> GatewayStatus" where
  "gatewayStatusAfter now obj kgw gs =
     \<lparr>gs_Addresses = [],
      gs_Conditions = gatewayConditionsAfter now obj (gs_Conditions gs),
      gs_Listeners = map (\<lambda>(l, old). listenerStatusOf now obj l old)
                       (zip (g_Listeners kgw) (preparedListeners kgw gs))\<rparr>"

definition gatewayAfter :: "Time \<Rightarrow> string set \<Rightarrow> 's Config \<Rightarrow> 's Config" where
  "gatewayAfter now classes obj =
     (case Spec obj of
        GatewaySpecP kgw \<Rightarrow>
          if g_GatewayClassName kgw \<in> classes
          then (case Status obj of
                  GatewayStatusP gs \<Rightarrow> obj\<lparr>Status := GatewayStatusP (gatewayStatusAfter now obj kgw gs)\<rparr>
                | _ \<Rightarrow> obj)
          else obj
      | _ \<Rightarrow> obj)"

definition gatewayOut :: "'s KubernetesResources \<Rightarrow> string set \<Rightarrow> 's Config \<Rightarrow> 's Config list" where
  "gatewayOut r classes obj =
     (case Spec obj of
        GatewaySpecP kgw \<Rightarrow>
          if g_GatewayClassName kgw \<in> classes
          then [gatewayConfig r obj (gatewayName obj) (map (listenerServer obj) (g_Listeners kgw))]
          else []
      | _ \<Rightarrow> [])"

definition gatewayBind ::
  "('s \<Rightarrow> (Labels \<Rightarrow> bool) option) \<Rightarrow> 's KubernetesResources \<Rightarrow> string set \<Rightarrow> 's Config
     \<Rightarrow> (RouteKey \<rightharpoonup> string list) \<Rightarrow> (RouteKey \<rightharpoonup> string list)" where
  "gatewayBind sel r classes obj m =
     (case Spec obj of
        GatewaySpecP kgw \<Rightarrow>
          if g_GatewayClassName kgw \<in> classes
          then foldl (\<lambda>m l. bindRoutes sel r obj (gatewayName obj) l m) m (g_Listeners kgw)
          else m
      | _ \<Rightarrow> m)"

definition classAfter :: "Time \<Rightarrow> 's Config \<Rightarrow> 's Config" where
  "classAfter now obj =
     (if isOurClass obj
      then (case Status obj of
              GatewayClassStatusP conditions \<Rightarrow>
                obj\<lparr>Status := GatewayClassStatusP
                                  (ConditionallyUpdateCondition conditions
                                     \<lparr>c_Type = GatewayClassConditionStatusAdmitted, c_Status = StatusTrue,
                                      c_ObservedGeneration = m_Generation (Meta obj),
                                      c_LastTransitionTime = now,
                                      c_Reason = ''Handled'',
                                      c_Message = ''Handled by Istio controller''\<rparr>)\<rparr>
            | _ \<Rightarrow> obj)
      else obj)"

definition routeMapOf ::
  "('s \<Rightarrow> (Labels \<Rightarrow> bool) option) \<Rightarrow> 's KubernetesResources \<Rightarrow> (RouteKey \<rightharpoonup> string list)" where
  "routeMapOf sel r =
     foldl (appendOwner experimentalMeshGatewayName)
       (foldl (\<lambda>m obj. gatewayBind sel r (ourClasses r) obj m) Map.empty (Gateway r))
       (fetchMeshRoutes r)"

definition listenerStatusReports :: "'s Config \<Rightarrow> 's Config \<Rightarrow> bool" where
  "listenerStatusReports obj obj' =
     (case Spec obj of
        GatewaySpecP kgw \<Rightarrow>
          (case Status obj' of
             GatewayStatusP gs \<Rightarrow>
               map (\<lambda>s. (ls_Port s, ls_Protocol s, ls_Hostname s)) (gs_Listeners gs)
                 = map (\<lambda>l. (l_Port l, l_Protocol l, l_Hostname l)) (g_Listeners kgw)
           | _ \<Rightarrow> False)
      | _ \<Rightarrow> False)"

definition exClass :: "unit Config" where
  "exClass = \<lparr>Meta = exMeta ''GatewayClass'' ''istio'' '''',
              Spec = GatewayClassSpecP \<lparr>gc_Controller = ''istio.io/gateway-controller''\<rparr>,
              Status = GatewayClassStatusP []\<rparr>"

definition exListener :: "int32 \<Rightarrow> unit Listener" where
  "exListener port = \<lparr>l_Hostname = None, l_Port = port, l_Protocol = ''HTTP'', l_TLS = None,
                      l_Routes = exRoutes\<rparr>"

definition exGateway :: "unit Listener list \<Rightarrow> ListenerStatus list \<Rightarrow> unit Config" where
  "exGateway listeners statuses =
     \<lparr>Meta = exMeta ''Gateway'' ''gw'' ''a'',
      Spec = GatewaySpecP \<lparr>g_GatewayClassName = ''istio'', g_Listeners = listeners\<rparr>,
      Status = GatewayStatusP \<lparr>gs_Addresses = [], gs_Conditions = [], gs_Listeners = statuses\<rparr>\<rparr>"

definition exSnapshot :: "unit Config list \<Rightarrow> unit Config list \<Rightarrow> unit KubernetesResources" where
  "exSnapshot gateways http =
     \<lparr>GatewayClass = [exClass], Gateway = gateways, HTTPRoute = http, TCPRoute = [], TLSRoute = [],
      BackendPolicy = [], Namespaces = Map.empty, Domain = ''cluster.local''\<rparr>"

text \<open>
  The destination the loops of \<open>buildHTTPDestination\<close> and \<open>buildTCPDestination\<close>
  append for the forwarding target number \<open>i\<close>, and example targets: one that names a
  service and two that carry a reference of another kind.
\<close>

definition httpDestinationOf ::
  "goint list \<Rightarrow> string \<Rightarrow> string \<Rightarrow> nat \<times> HTTPRouteForwardTo \<Rightarrow> HTTPRouteDestination" where
  "httpDestinationOf weights ns domain = (\<lambda>(i, fwd).
     \<lparr>hd_Destination = Some (buildDestination fwd ns domain), hd_Weight = ucast (weights ! i),
      hd_Headers = applyFilters (hft_Filters fwd)\<rparr>)"

definition tcpDestinationOf ::
  "goint list \<Rightarrow> string \<Rightarrow> string \<Rightarrow> nat \<times> RouteForwardTo \<Rightarrow> RouteDestination" where
  "tcpDestinationOf weights ns domain = (\<lambda>(i, fwd).
     \<lparr>rd_Destination = Some (buildGenericDestination fwd ns domain), rd_Weight = ucast (weights ! i)\<rparr>)"

definition exBackendTarget :: HTTPRouteForwardTo where
  "exBackendTarget =
     \<lparr>hft_ServiceName = None,
      hft_BackendRef = Some \<lparr>lor_Group = ''example.org'', lor_Kind = ''Bucket'', lor_Name = ''b''\<rparr>,
      hft_Port = None, hft_Weight = 1, hft_Filters = []\<rparr>"

definition exServiceTarget :: HTTPRouteForwardTo where
  "exServiceTarget =
     \<lparr>hft_ServiceName = Some ''reviews'', hft_BackendRef = None, hft_Port = None, hft_Weight = 1,
      hft_Filters = []\<rparr>"

definition exGenericBackendTarget :: RouteForwardTo where
  "exGenericBackendTarget =
     \<lparr>ft_ServiceName = None,
      ft_BackendRef = Some \<lparr>lor_Group = ''example.org'', lor_Kind = ''Bucket'', lor_Name = ''b''\<rparr>,
      ft_Port = None, ft_Weight = 1\<rparr>"

section \<open>Lemmas\<close>

subsection \<open>Rounding to float64\<close>

lemma powi2_pos: "0 < (2::rat) powi k"
  by (simp add: power_int_def)

lemma powi2_add: "(2::rat) powi (m + n) = 2 powi m * 2 powi n"
  by (simp add: power_int_add)

lemma powi2_diff: "(2::rat) powi (m - n) = 2 powi m / 2 powi n"
  by (simp add: power_int_diff)

lemma bitlen_powi_bounds:
  assumes "0 < a"
  shows "(2::rat) powi (bitlen a - 1) \<le> of_int a" and "of_int a < (2::rat) powi bitlen a"
proof -
  from assms have b1: "1 \<le> bitlen a"
    using bitlen_eq_zero_iff [of a] bitlen_nonneg [of a] by linarith
  from bitlen_bounds [OF assms]
  have lo: "(2::int) ^ nat (bitlen a - 1) \<le> a" and hi: "a < 2 ^ nat (bitlen a)" by simp_all
  have "(2::rat) powi (bitlen a - 1) = of_int (2 ^ nat (bitlen a - 1))"
    using b1 by (simp add: power_int_nonneg_exp)
  also have "\<dots> \<le> of_int a" using lo by (simp only: of_int_le_iff)
  finally show "(2::rat) powi (bitlen a - 1) \<le> of_int a" .
  have "(of_int a :: rat) < of_int (2 ^ nat (bitlen a))" using hi by (simp only: of_int_less_iff)
  also have "\<dots> = 2 powi bitlen a" using b1 by (simp add: power_int_nonneg_exp)
  finally show "of_int a < (2::rat) powi bitlen a" .
qed

lemma ilog2_bounds:
  assumes "0 < x"
  shows "2 powi ilog2 x \<le> x" and "x < 2 powi (ilog2 x + 1)"
proof -
  obtain a b where q: "quotient_of x = (a, b)" by (cases "quotient_of x")
  then have b: "0 < b" and x: "x = of_int a / of_int b"
    using quotient_of_denom_pos [OF q] quotient_of_div [OF q] by simp_all
  from assms x b have a: "0 < a" by (simp add: zero_less_divide_iff)
  define d where "d = bitlen a - bitlen b"
  have e: "ilog2 x = (if 2 powi d \<le> x then d else d - 1)"
    by (simp add: ilog2_def q d_def Let_def)
  note A = bitlen_powi_bounds [OF a] and B = bitlen_powi_bounds [OF b]
  have bpos: "(0::rat) < of_int b" using b by simp
  have "x < 2 powi bitlen a / 2 powi (bitlen b - 1)"
    unfolding x using A(2) B(1) bpos powi2_pos [of "bitlen b - 1"]
    by (intro frac_less) (simp_all add: a less_imp_le)
  also have "\<dots> = 2 powi (d + 1)"
    unfolding d_def powi2_diff [symmetric] by (simp add: algebra_simps)
  finally have up: "x < 2 powi (d + 1)" .
  have "(2::rat) powi (d - 1) = 2 powi (bitlen a - 1) / 2 powi bitlen b"
    unfolding d_def powi2_diff [symmetric] by (simp add: algebra_simps)
  also have "\<dots> < x"
    unfolding x using A(1) B(2) bpos powi2_pos [of "bitlen a - 1"]
    by (intro frac_less2) (simp_all add: a less_imp_le)
  finally have lo: "2 powi (d - 1) < x" .
  show "2 powi ilog2 x \<le> x" using lo by (simp add: e)
  show "x < 2 powi (ilog2 x + 1)" using up by (auto simp add: e not_le)
qed

lemma powi2_less_cancel: "(2::rat) powi m < 2 powi n \<Longrightarrow> m < n"
  using power_int_increasing [of n m "2::rat"] by (cases "m < n") auto

lemma ilog2_unique:
  assumes "2 powi e \<le> x" "x < 2 powi (e + 1)"
  shows "ilog2 x = e"
proof -
  have x: "0 < x" using assms(1) powi2_pos [of e] by linarith
  note I = ilog2_bounds [OF x]
  have "(2::rat) powi e < 2 powi (ilog2 x + 1)" using assms(1) I(2) by linarith
  then have 1: "e < ilog2 x + 1" by (rule powi2_less_cancel)
  have "(2::rat) powi ilog2 x < 2 powi (e + 1)" using assms(2) I(1) by linarith
  then have 2: "ilog2 x < e + 1" by (rule powi2_less_cancel)
  from 1 2 show ?thesis by linarith
qed

lemma rne_close: "\<bar>of_int (rne y) - y\<bar> \<le> 1 / 2"
proof -
  have "of_int \<lfloor>y\<rfloor> \<le> y" "y < of_int \<lfloor>y\<rfloor> + 1" by linarith+
  then show ?thesis
    by (auto simp add: rne_def Let_def abs_le_iff)
qed

lemma rne_nonneg: "0 \<le> y \<Longrightarrow> 0 \<le> rne y"
  by (auto simp add: rne_def Let_def)
lemma f64_rnd_formula:
  assumes "2 powi e \<le> \<bar>x\<bar>" "\<bar>x\<bar> < 2 powi (e + 1)"
  shows "f64_rnd x = of_int (rne (x / 2 powi (max e (- 1022) - 52))) * 2 powi (max e (- 1022) - 52)"
proof -
  have "0 < \<bar>x\<bar>" using assms(1) powi2_pos [of e] by linarith
  then have "x \<noteq> 0" by simp
  moreover have "ilog2 \<bar>x\<bar> = e" using assms by (rule ilog2_unique)
  ultimately show ?thesis by (simp add: f64_rnd_def Let_def)
qed

lemma f64_rnd_rel:
  assumes "2 powi (- 1022) \<le> \<bar>x\<bar>"
  shows "\<bar>f64_rnd x - x\<bar> \<le> \<bar>x\<bar> * 2 powi (- 53)"
proof -
  have x0: "0 < \<bar>x\<bar>" using assms powi2_pos [of "- 1022"] by linarith
  define e where "e = ilog2 \<bar>x\<bar>"
  have lo: "2 powi e \<le> \<bar>x\<bar>" and hi: "\<bar>x\<bar> < 2 powi (e + 1)"
    unfolding e_def using ilog2_bounds [OF x0] by simp_all
  have "(2::rat) powi (- 1022) < 2 powi (e + 1)" using assms hi by linarith
  then have "- 1022 < e + 1" by (rule powi2_less_cancel)
  then have m: "max e (- 1022) = e" by simp
  define q where "q = e - 52"
  define y where "y = x / 2 powi q"
  have qpos: "0 < (2::rat) powi q" by (rule powi2_pos)
  have xy: "x = y * 2 powi q" using qpos by (simp add: y_def)
  have r: "f64_rnd x = of_int (rne y) * 2 powi q"
    using f64_rnd_formula [OF lo hi] by (simp add: m q_def y_def)
  have "f64_rnd x - x = (of_int (rne y) - y) * 2 powi q"
    by (simp only: r left_diff_distrib xy [symmetric])
  then have "\<bar>f64_rnd x - x\<bar> = \<bar>of_int (rne y) - y\<bar> * 2 powi q"
    using qpos by (simp only: abs_mult abs_of_pos)
  also have "\<dots> \<le> (1 / 2) * 2 powi q"
    using rne_close [of y] qpos by (intro mult_right_mono) simp_all
  also have "\<dots> = 2 powi e * 2 powi (- 53)"
  proof -
    have "q = e + (- 53) + 1" by (simp add: q_def)
    then show ?thesis by (simp only: powi2_add) simp
  qed
  also have "\<dots> \<le> \<bar>x\<bar> * 2 powi (- 53)"
    using lo powi2_pos [of "- 53"] by (intro mult_right_mono) simp_all
  finally show ?thesis .
qed

lemma f64_rnd_nonneg:
  assumes "0 \<le> x"
  shows "0 \<le> f64_rnd x"
proof (cases "x = 0")
  case True
  then show ?thesis by (simp add: f64_rnd_def)
next
  case False
  define q where "q = max (ilog2 \<bar>x\<bar>) (- 1022) - 52"
  have "0 \<le> x / 2 powi q" using assms powi2_pos [of q] by simp
  then have "0 \<le> rne (x / 2 powi q)" by (rule rne_nonneg)
  then have "(0::rat) \<le> of_int (rne (x / 2 powi q)) * 2 powi q"
    using powi2_pos [of q] by (intro mult_nonneg_nonneg) simp_all
  then show ?thesis using False by (simp add: f64_rnd_def Let_def q_def)
qed

lemma powi2_m53_small: "(2::rat) powi (- 53) \<le> 1 / 1000"
proof -
  have "(2::rat) powi (- 53) \<le> 2 powi (- 10)"
    by (rule power_int_increasing) simp_all
  also have "\<dots> \<le> 1 / 1000" by (simp add: power_int_minus_divide)
  finally show ?thesis .
qed

lemma f64_rnd_approx:
  assumes "2 powi (- 1022) \<le> x"
  shows "x * (999 / 1000) \<le> f64_rnd x" and "f64_rnd x \<le> x * (1001 / 1000)"
proof -
  have x0: "0 < x" using assms powi2_pos [of "- 1022"] by linarith
  have "\<bar>f64_rnd x - x\<bar> \<le> \<bar>x\<bar> * 2 powi (- 53)"
    using assms x0 by (intro f64_rnd_rel) simp
  also have "\<dots> \<le> x * (1 / 1000)"
    using x0 powi2_m53_small by (simp add: mult_left_mono)
  finally have "\<bar>f64_rnd x - x\<bar> \<le> x * (1 / 1000)" .
  then have "f64_rnd x - x \<le> x * (1 / 1000)" "- (f64_rnd x - x) \<le> x * (1 / 1000)"
    by (simp_all only: abs_le_iff)
  then show "x * (999 / 1000) \<le> f64_rnd x" and "f64_rnd x \<le> x * (1001 / 1000)"
    by linarith+
qed

lemma f64_round_small:
  assumes "\<bar>f64_rnd x\<bar> \<le> 1024"
  shows "f64_round x = Some (f64_rnd x)"
proof -
  have "(1024::rat) = 2 powi 10" by simp
  also have "\<dots> < 2 powi 1024" by (rule power_int_strict_increasing) simp_all
  finally show ?thesis using assms by (simp add: f64_round_def Let_def)
qed
lemma powi2_m1022_le_one: "(2::rat) powi (- 1022) \<le> 1"
  using power_int_increasing [of "- 1022" 0 "2::rat"] by simp

lemma f64_rnd_bound: "\<bar>f64_rnd z\<bar> \<le> \<bar>z\<bar> * (1001 / 1000) + 1"
proof (cases "2 powi (- 1022) \<le> \<bar>z\<bar>")
  case True
  have "\<bar>f64_rnd z - z\<bar> \<le> \<bar>z\<bar> * 2 powi (- 53)" using True by (rule f64_rnd_rel)
  also have "\<dots> \<le> \<bar>z\<bar> * (1 / 1000)"
    using powi2_m53_small by (intro mult_left_mono) simp_all
  finally show ?thesis by linarith
next
  case small: False
  show ?thesis
  proof (cases "z = 0")
    case True
    then show ?thesis by (simp add: f64_rnd_def)
  next
    case False
    then have z0: "0 < \<bar>z\<bar>" by simp
    define e where "e = ilog2 \<bar>z\<bar>"
    have lo: "2 powi e \<le> \<bar>z\<bar>" unfolding e_def using ilog2_bounds [OF z0] by simp
    have "(2::rat) powi e < 2 powi (- 1022)" using lo small by linarith
    then have "e < - 1022" by (rule powi2_less_cancel)
    then have m: "max e (- 1022) - 52 = - 1074" by simp
    define y where "y = z / 2 powi (- 1074)"
    have P: "0 < (2::rat) powi (- 1074)" by (rule powi2_pos)
    have P1: "(2::rat) powi (- 1074) \<le> 1"
      using power_int_increasing [of "- 1074" 0 "2::rat"] by simp
    have zy: "z = y * 2 powi (- 1074)" using P by (simp add: y_def)
    have r: "f64_rnd z = of_int (rne y) * 2 powi (- 1074)"
      using False by (simp add: f64_rnd_def Let_def e_def [symmetric] m y_def)
    have "f64_rnd z - z = (of_int (rne y) - y) * 2 powi (- 1074)"
      by (simp only: r left_diff_distrib zy [symmetric])
    then have "\<bar>f64_rnd z - z\<bar> = \<bar>of_int (rne y) - y\<bar> * 2 powi (- 1074)"
      using P by (simp only: abs_mult abs_of_pos)
    also have "\<dots> \<le> (1 / 2) * 1"
      using rne_close [of y] P P1 by (intro mult_mono) simp_all
    finally show ?thesis by linarith
  qed
qed

lemma f64_round_le_100:
  assumes "\<bar>z\<bar> \<le> 1000"
  shows "f64_round z = Some (f64_rnd z)"
proof -
  have "\<bar>f64_rnd z\<bar> \<le> 1024" using f64_rnd_bound [of z] assms by linarith
  then show ?thesis by (rule f64_round_small)
qed

lemma f64_rnd_zero: "f64_rnd 0 = 0"
  by (simp add: f64_rnd_def)

lemma sint64_of_int:
  assumes "- (2 ^ 63) \<le> k" "k < 2 ^ 63"
  shows "sint (word_of_int k :: goint) = k"
  using assms by (simp add: sint_sbintrunc' signed_take_bit_int_eq_self)

lemma f64_to_int_floor:
  assumes "0 \<le> p" "p \<le> 101"
  shows "f64_to_int p = Some (word_of_int \<lfloor>p\<rfloor>)" and "sint (word_of_int \<lfloor>p\<rfloor> :: goint) = \<lfloor>p\<rfloor>"
proof -
  have f: "0 \<le> \<lfloor>p\<rfloor>" "\<lfloor>p\<rfloor> \<le> 101" using assms by (simp_all add: floor_le_iff)
  then show "f64_to_int p = Some (word_of_int \<lfloor>p\<rfloor>)"
    using assms by (simp add: f64_to_int_def Let_def)
  have "- (2 ^ 63) \<le> \<lfloor>p\<rfloor>" "\<lfloor>p\<rfloor> < 2 ^ 63" using f by simp_all
  then show "sint (word_of_int \<lfloor>p\<rfloor> :: goint) = \<lfloor>p\<rfloor>"
    by (rule sint64_of_int)
qed
lemma rne_of_int: "rne (of_int n) = n"
  by (simp add: rne_def Let_def)

lemma f64_rnd_exact:
  assumes m: "\<bar>m\<bar> < 2 ^ 53" and k: "- 1074 \<le> k"
  shows "f64_rnd (of_int m * 2 powi k) = of_int m * 2 powi k"
proof (cases "m = 0")
  case True
  then show ?thesis by (simp add: f64_rnd_def)
next
  case False
  define x :: rat where "x = of_int m * 2 powi k"
  have P: "0 < (2::rat) powi k" by (rule powi2_pos)
  have ax: "\<bar>x\<bar> = of_int \<bar>m\<bar> * 2 powi k" using P by (simp add: x_def abs_mult)
  have "(0::rat) < of_int \<bar>m\<bar>" using False by simp
  then have x0: "0 < \<bar>x\<bar>" unfolding ax using P by (rule mult_pos_pos)
  then have xn: "x \<noteq> 0" by simp
  define e where "e = ilog2 \<bar>x\<bar>"
  define q where "q = max e (- 1022) - 52"
  have "(of_int \<bar>m\<bar> :: rat) < of_int (2 ^ 53)" using m by (simp only: of_int_less_iff)
  then have "(of_int \<bar>m\<bar> :: rat) < 2 powi 53" by simp
  then have "\<bar>x\<bar> < 2 powi 53 * 2 powi k" unfolding ax using P by (rule mult_strict_right_mono)
  then have "\<bar>x\<bar> < 2 powi (53 + k)" by (simp only: powi2_add)
  moreover have "2 powi e \<le> \<bar>x\<bar>" unfolding e_def using ilog2_bounds(1) [OF x0] .
  ultimately have "(2::rat) powi e < 2 powi (53 + k)" by linarith
  then have "e < 53 + k" by (rule powi2_less_cancel)
  then have qk: "q \<le> k" using k by (simp add: q_def)
  define j where "j = nat (k - q)"
  have "(2::rat) powi k = 2 powi (int j + q)" using qk by (simp add: j_def)
  also have "\<dots> = of_int (2 ^ j) * 2 powi q" by (simp only: powi2_add) simp
  finally have pk: "(2::rat) powi k = of_int (2 ^ j) * 2 powi q" .
  have Q: "(2::rat) powi q \<noteq> 0" using powi2_pos [of q] by simp
  have "x / 2 powi q = of_int (m * 2 ^ j)"
    unfolding x_def pk using Q by simp
  then have "rne (x / 2 powi q) = m * 2 ^ j" by (simp only: rne_of_int)
  then have "of_int (rne (x / 2 powi q)) * 2 powi q = x"
    by (simp add: x_def pk)
  then have "f64_rnd x = x" using xn by (simp add: f64_rnd_def Let_def q_def e_def)
  then show ?thesis by (simp only: x_def)
qed

lemma f64_rnd_int_exact:
  assumes "\<bar>m\<bar> < 2 ^ 53"
  shows "f64_rnd (of_int m) = of_int m"
  using f64_rnd_exact [OF assms, of 0] by simp

lemma f64_round_finite:
  assumes "\<bar>f64_rnd x\<bar> \<le> 2 ^ 64"
  shows "f64_round x = Some (f64_rnd x)"
proof -
  have "(2::rat) ^ 64 = 2 powi 64" by simp
  also have "\<dots> < 2 powi 1024" by (rule power_int_strict_increasing) simp_all
  finally show ?thesis using assms by (simp add: f64_round_def Let_def)
qed
lemma f64_rnd_int_approx:
  assumes "1 \<le> (k::int)"
  shows "of_int k * (999 / 1000) \<le> f64_rnd (of_int k)" and "f64_rnd (of_int k) \<le> of_int k * (1001 / 1000)"
proof -
  have "(1::rat) \<le> of_int k" using assms by simp
  then have "2 powi (- 1022) \<le> (of_int k :: rat)" using powi2_m1022_le_one by linarith
  then show "of_int k * (999 / 1000) \<le> f64_rnd (of_int k)"
    and "f64_rnd (of_int k) \<le> of_int k * (1001 / 1000)"
    by (rule f64_rnd_approx)+
qed

lemma entry_zero:
  assumes "sint w = 0" "0 < sint tot"
  shows "f64_div (f64_of_int w) (f64_of_int tot) = Some 0"
proof -
  have k: "1 \<le> sint tot" using assms(2) by linarith
  then have "(1::rat) \<le> of_int (sint tot)" by (simp only: of_int_1_le_iff)
  with f64_rnd_int_approx(1) [OF k]
  have "0 < f64_rnd (of_int (sint tot))" by linarith
  then have "f64_of_int tot \<noteq> 0" unfolding f64_of_int_def by linarith
  moreover have "f64_of_int w = 0" by (simp only: f64_of_int_def assms(1) of_int_0 f64_rnd_zero)
  moreover have "f64_round 0 = Some 0" by (simp add: f64_round_def f64_rnd_zero)
  ultimately show ?thesis by (simp add: f64_div_def)
qed

lemma entry_pos:
  fixes w tot :: goint
  defines "t \<equiv> (of_int (sint w) :: rat) / of_int (sint tot)"
  assumes w: "1 \<le> sint w" and le: "sint w \<le> sint tot"
  shows "\<exists>perc p. f64_div (f64_of_int w) (f64_of_int tot) = Some perc \<and> f64_mul perc 100 = Some p
           \<and> 199 / 2 * t \<le> p \<and> p \<le> 201 / 2 * t"
proof -
  define A :: rat where "A = of_int (sint w)"
  define S :: rat where "S = of_int (sint tot)"
  have A1: "1 \<le> A" using w by (simp only: A_def of_int_1_le_iff)
  have AS: "A \<le> S" using le by (simp only: A_def S_def of_int_le_iff)
  have "sint tot < 2 ^ 63" using sint_lt [of tot] by simp
  then have "(of_int (sint tot) :: rat) < of_int (2 ^ 63)" by (simp only: of_int_less_iff)
  then have S63: "S < 2 ^ 63" unfolding S_def by simp
  have S1: "1 \<le> sint tot" using w le by linarith
  have S0: "0 < S" using A1 AS by linarith
  have t: "t = A / S" by (simp only: t_def A_def S_def)
  have t0: "0 < t" using A1 S0 by (simp add: t)
  have t1: "t \<le> 1" using AS S0 by (simp add: t)
  have "1 / 2 ^ 63 \<le> 1 / S" using S63 S0 by (intro divide_left_mono) simp_all
  also have "\<dots> \<le> A / S" using A1 S0 by (intro divide_right_mono) simp_all
  finally have tlo: "1 / 2 ^ 63 \<le> t" by (simp add: t)
  define fw where "fw = f64_rnd A"
  define ft where "ft = f64_rnd S"
  have fw: "A * (999 / 1000) \<le> fw" "fw \<le> A * (1001 / 1000)"
    unfolding fw_def A_def using f64_rnd_int_approx [OF w] by blast+
  have ft: "S * (999 / 1000) \<le> ft" "ft \<le> S * (1001 / 1000)"
    unfolding ft_def S_def using f64_rnd_int_approx [OF S1] by blast+
  have ft0: "0 < ft" using ft(1) S0 by linarith
  have fw0: "0 \<le> fw" using fw(1) A1 by linarith
  define g where "g = fw / ft"
  have "g \<le> A * (1001 / 1000) / (S * (999 / 1000))"
    unfolding g_def using fw(2) ft(1) S0 A1 by (intro frac_le) simp_all
  also have "\<dots> = t * (1001 / 999)" using S0 by (simp add: t)
  finally have ghi: "g \<le> t * (1001 / 999)" .
  have "t * (999 / 1001) = A * (999 / 1000) / (S * (1001 / 1000))" using S0 by (simp add: t)
  also have "\<dots> \<le> g"
    unfolding g_def using fw(1) ft(2) ft0 fw0 by (intro frac_le) simp_all
  finally have glo: "t * (999 / 1001) \<le> g" .
  have c64: "(2::rat) powi (- 1022) \<le> 1 / 2 ^ 64"
    using power_int_increasing [of "- 1022" "- 64" "2::rat"] by (simp add: power_int_minus_divide)
  note c64
  also have "(1::rat) / 2 ^ 64 \<le> 1 / 2 ^ 63 * (999 / 1001)" by simp
  also have "\<dots> \<le> t * (999 / 1001)" using tlo by (intro mult_right_mono) simp_all
  also note glo
  finally have gn: "2 powi (- 1022) \<le> g" .
  define perc where "perc = f64_rnd g"
  have perc: "g * (999 / 1000) \<le> perc" "perc \<le> g * (1001 / 1000)"
    unfolding perc_def using f64_rnd_approx [OF gn] by blast+
  have "\<bar>g\<bar> \<le> 1000" using ghi glo t0 t1 by linarith
  then have "f64_round g = Some perc" unfolding perc_def by (rule f64_round_le_100)
  moreover have "f64_of_int w = fw" "f64_of_int tot = ft"
    by (simp_all only: f64_of_int_def fw_def ft_def A_def S_def)
  ultimately have 1: "f64_div (f64_of_int w) (f64_of_int tot) = Some perc"
    using ft0 by (simp add: f64_div_def g_def)
  define h where "h = perc * 100"
  have hn: "2 powi (- 1022) \<le> h" using perc(1) gn glo t0 unfolding h_def by linarith
  define p where "p = f64_rnd h"
  have p: "h * (999 / 1000) \<le> p" "p \<le> h * (1001 / 1000)"
    unfolding p_def using f64_rnd_approx [OF hn] by blast+
  have "\<bar>h\<bar> \<le> 1000" using perc ghi glo t0 t1 unfolding h_def by linarith
  then have "f64_round h = Some p" unfolding p_def by (rule f64_round_le_100)
  then have 2: "f64_mul perc 100 = Some p"
    by (simp add: f64_mul_def h_def)
  have 3: "199 / 2 * t \<le> p" using p(1) perc(1) glo t0 unfolding h_def by linarith
  have 4: "p \<le> 201 / 2 * t" using p(2) perc(2) ghi t0 unfolding h_def by linarith
  from 1 2 3 4 show ?thesis by blast
qed
lemma entry:
  fixes w tot :: goint
  defines "t \<equiv> (of_int (sint w) :: rat) / of_int (sint tot)"
  assumes w: "0 \<le> sint w" and le: "sint w \<le> sint tot" and tot: "0 < sint tot"
  shows "\<exists>perc p remainder.
           f64_div (f64_of_int w) (f64_of_int tot) = Some perc \<and> f64_mul perc 100 = Some p
         \<and> f64_to_int p = Some (word_of_int \<lfloor>p\<rfloor>)
         \<and> f64_sub p (f64_of_int (word_of_int \<lfloor>p\<rfloor>)) = Some remainder
         \<and> sint (word_of_int \<lfloor>p\<rfloor> :: goint) = \<lfloor>p\<rfloor> \<and> 0 \<le> \<lfloor>p\<rfloor> \<and> \<lfloor>p\<rfloor> \<le> 100
         \<and> 199 / 2 * t \<le> p \<and> p \<le> 201 / 2 * t"
proof -
  have "\<exists>perc p. f64_div (f64_of_int w) (f64_of_int tot) = Some perc \<and> f64_mul perc 100 = Some p
           \<and> 199 / 2 * t \<le> p \<and> p \<le> 201 / 2 * t"
  proof (cases "sint w = 0")
    case True
    have "f64_mul 0 100 = Some 0" by (simp add: f64_mul_def f64_round_def f64_rnd_zero)
    moreover have "t = 0" by (simp only: t_def True of_int_0 div_0)
    ultimately show ?thesis using entry_zero [OF True tot] by simp
  next
    case False
    then have "1 \<le> sint w" using w by linarith
    from entry_pos [OF this le] show ?thesis by (simp only: t_def)
  qed
  then obtain perc p where 1: "f64_div (f64_of_int w) (f64_of_int tot) = Some perc"
    and 2: "f64_mul perc 100 = Some p"
    and lo: "199 / 2 * t \<le> p" and hi: "p \<le> 201 / 2 * t" by blast
  have "(of_int (sint w) :: rat) \<le> of_int (sint tot)" "(0::rat) \<le> of_int (sint w)"
    "(0::rat) < of_int (sint tot)"
    using w le tot by (simp_all only: of_int_le_iff of_int_0_le_iff of_int_0_less_iff)
  then have t: "0 \<le> t" "t \<le> 1" by (simp_all only: t_def) simp_all
  have p0: "0 \<le> p" using lo t by linarith
  have p101: "p \<le> 101" using hi t by linarith
  have p1: "p < 101" using hi t by linarith
  note F = f64_to_int_floor [OF p0 p101]
  have f0: "0 \<le> \<lfloor>p\<rfloor>" using p0 by simp
  have f100: "\<lfloor>p\<rfloor> \<le> 100" using p1 by (simp add: floor_le_iff)
  have "\<bar>f64_rnd (of_int \<lfloor>p\<rfloor>)\<bar> \<le> \<bar>of_int \<lfloor>p\<rfloor>\<bar> * (1001 / 1000) + 1"
    by (rule f64_rnd_bound)
  moreover have "(0::rat) \<le> of_int \<lfloor>p\<rfloor>" "(of_int \<lfloor>p\<rfloor> :: rat) \<le> 100"
    using f0 f100 by simp_all
  ultimately have "\<bar>p - f64_rnd (of_int \<lfloor>p\<rfloor>)\<bar> \<le> 1000" using p0 p101 by linarith
  then have "f64_round (p - f64_rnd (of_int \<lfloor>p\<rfloor>)) = Some (f64_rnd (p - f64_rnd (of_int \<lfloor>p\<rfloor>)))"
    by (rule f64_round_le_100)
  then have 4: "f64_sub p (f64_of_int (word_of_int \<lfloor>p\<rfloor>)) = Some (f64_rnd (p - f64_rnd (of_int \<lfloor>p\<rfloor>)))"
    by (simp only: f64_sub_def f64_of_int_def F(2))
  from 1 2 F 4 f0 f100 lo hi show ?thesis by blast
qed

lemma intSum_eq: "intSum xs = sum_list xs"
proof -
  have "foldl (\<lambda>r i. r + i) a xs = a + sum_list xs" for a :: goint
    by (induction xs arbitrary: a) (simp_all add: add.assoc)
  then show ?thesis by (simp add: intSum_def)
qed

lemma percentages_ok:
  assumes tot: "0 < sint tot" and ws: "\<forall>w\<in>set ws. 0 \<le> sint w \<and> sint w \<le> sint tot"
  shows "\<exists>results remainders. percentages tot ws = Inr (results, remainders)
           \<and> length results = length ws \<and> length remainders = length ws
           \<and> (\<forall>r\<in>set results. 0 \<le> sint r \<and> sint r \<le> 100)
           \<and> (of_int (sum_list (map sint results)) :: rat)
                \<le> 201 / 2 * (of_int (sum_list (map sint ws)) / of_int (sint tot))
           \<and> 199 / 2 * (of_int (sum_list (map sint ws)) / of_int (sint tot)) - of_nat (length ws)
                \<le> (of_int (sum_list (map sint results)) :: rat)"
  using ws
proof (induction ws)
  case Nil
  show ?case by simp
next
  case (Cons w ws)
  then have w: "0 \<le> sint w" "sint w \<le> sint tot" by simp_all
  from Cons obtain results remainders where
    R: "percentages tot ws = Inr (results, remainders)"
    "length results = length ws" "length remainders = length ws"
    "\<forall>r\<in>set results. 0 \<le> sint r \<and> sint r \<le> 100"
    "(of_int (sum_list (map sint results)) :: rat)
       \<le> 201 / 2 * (of_int (sum_list (map sint ws)) / of_int (sint tot))"
    "199 / 2 * (of_int (sum_list (map sint ws)) / of_int (sint tot)) - of_nat (length ws)
       \<le> (of_int (sum_list (map sint results)) :: rat)"
    by auto
  from entry [OF w tot] obtain perc p remainder where
    E: "f64_div (f64_of_int w) (f64_of_int tot) = Some perc" "f64_mul perc 100 = Some p"
    "f64_to_int p = Some (word_of_int \<lfloor>p\<rfloor>)"
    "f64_sub p (f64_of_int (word_of_int \<lfloor>p\<rfloor>)) = Some remainder"
    "sint (word_of_int \<lfloor>p\<rfloor> :: goint) = \<lfloor>p\<rfloor>" "0 \<le> \<lfloor>p\<rfloor>" "\<lfloor>p\<rfloor> \<le> 100"
    "199 / 2 * ((of_int (sint w) :: rat) / of_int (sint tot)) \<le> p"
    "p \<le> 201 / 2 * ((of_int (sint w) :: rat) / of_int (sint tot))"
    by blast
  define r :: goint where "r = word_of_int \<lfloor>p\<rfloor>"
  have P: "percentages tot (w # ws) = Inr (r # results, remainder # remainders)"
    by (simp add: E(1-4) R(1) r_def)
  have fl: "(of_int \<lfloor>p\<rfloor> :: rat) \<le> p" "p - 1 \<le> (of_int \<lfloor>p\<rfloor> :: rat)" by linarith+
  have split: "(of_int (sum_list (map sint (w # ws))) :: rat) / of_int (sint tot)
      = of_int (sint w) / of_int (sint tot) + of_int (sum_list (map sint ws)) / of_int (sint tot)"
    by (simp only: list.map sum_list.Cons of_int_add add_divide_distrib)
  have sr: "(of_int (sum_list (map sint (r # results))) :: rat)
      = of_int \<lfloor>p\<rfloor> + of_int (sum_list (map sint results))"
    by (simp only: list.map sum_list.Cons of_int_add r_def E(5))
  have len: "(of_nat (length (w # ws)) :: rat) = 1 + of_nat (length ws)" by simp
  have hi: "(of_int (sum_list (map sint (r # results))) :: rat)
       \<le> 201 / 2 * (of_int (sum_list (map sint (w # ws))) / of_int (sint tot))"
    unfolding split sr distrib_left using fl(1) E(9) R(5) by linarith
  have lo: "199 / 2 * (of_int (sum_list (map sint (w # ws))) / of_int (sint tot))
        - of_nat (length (w # ws)) \<le> (of_int (sum_list (map sint (r # results))) :: rat)"
    unfolding split sr len distrib_left using fl(2) E(8) R(6) by linarith
  have rng: "\<forall>x\<in>set (r # results). 0 \<le> sint x \<and> sint x \<le> 100"
    using R(4) E(5,6,7) by (simp add: r_def)
  have "length (r # results) = length (w # ws)" "length (remainder # remainders) = length (w # ws)"
    using R(2,3) by simp_all
  with P rng hi lo show ?case by blast
qed
lemma mset_insertDesc: "mset (insertDesc x ys) = add_mset x (mset ys)"
  by (induction ys) simp_all

lemma mset_insertionSort: "mset (insertionSort xs) = mset xs"
proof -
  have "mset (foldl (\<lambda>acc x. insertDesc x acc) acc xs) = mset acc + mset xs" for acc
    by (induction xs arbitrary: acc) (simp_all add: mset_insertDesc)
  then show ?thesis by (simp add: insertionSort_def)
qed

lemma mset_argsort: "mset (argsort n) = mset [0..<length n]"
proof -
  have "mset (argsort n) = image_mset snd (mset (insertionSort (zip n [0..<length n])))"
    by (simp only: argsort_def mset_map)
  also have "\<dots> = mset (map snd (zip n [0..<length n]))"
    by (simp only: mset_insertionSort mset_map)
  also have "map snd (zip n [0..<length n]) = [0..<length n]"
    by (rule map_snd_zip) simp
  finally show ?thesis .
qed

lemma argsort_props:
  "distinct (argsort n)" "set (argsort n) = {0..<length n}" "length (argsort n) = length n"
proof -
  note m = mset_argsort [of n]
  show "distinct (argsort n)" using mset_eq_imp_distinct_iff [OF m] by simp
  show "set (argsort n) = {0..<length n}" using mset_eq_setD [OF m] by simp
  show "length (argsort n) = length n" using mset_eq_length [OF m] by simp
qed

lemma sum_list_sint_update:
  assumes "i < length xs"
  shows "sum_list (map sint (xs[i := v])) = sum_list (map sint xs) - sint (xs ! i) + sint v"
  using assms
proof (induction xs arbitrary: i)
  case Nil
  then show ?case by simp
next
  case (Cons x xs)
  then show ?case by (cases i) simp_all
qed

lemma sint64_succ:
  fixes r :: goint
  assumes "sint r < 2 ^ 63 - 1"
  shows "sint (r + 1) = sint r + 1"
proof -
  have "r + 1 = word_of_int (sint r + 1)" by simp
  moreover have "- (2 ^ 63) \<le> sint r" using sint_ge [of r] by simp
  ultimately show ?thesis using assms by (simp only: sint64_of_int)
qed

lemma sint64_pred:
  fixes r :: goint
  assumes "0 < sint r"
  shows "sint (r - 1) = sint r - 1"
proof -
  have "r - 1 = word_of_int (sint r - 1)" by simp
  moreover have "sint r < 2 ^ 63" using sint_lt [of r] by simp
  ultimately show ?thesis using assms by (simp only: sint64_of_int)
qed

lemma distribute_ok:
  assumes "distinct order" "\<forall>i\<in>set order. i < length results \<and> sint (results ! i) < 2 ^ 63 - 1"
    and "0 \<le> sint remaining" "sint remaining \<le> int (length order)"
  shows "\<exists>res. distribute remaining order results = Inr res \<and> length res = length results
           \<and> sum_list (map sint res) = sum_list (map sint results) + sint remaining
           \<and> (\<forall>i<length results. res ! i = results ! i \<or> (i \<in> set order \<and> res ! i = results ! i + 1))"
  using assms
proof (induction order arbitrary: remaining results)
  case Nil
  then show ?case by simp
next
  case (Cons idx order)
  show ?case
  proof (cases "sint remaining = 0")
    case True
    then have "remaining \<le>s 0" by (simp add: word_sle_eq)
    then show ?thesis using True by simp
  next
    case False
    with Cons.prems(3) have pos: "0 < sint remaining" by linarith
    then have nle: "\<not> remaining \<le>s 0" by (simp add: word_sle_eq)
    from Cons.prems(2) have idx: "idx < length results" "sint (results ! idx) < 2 ^ 63 - 1" by simp_all
    define results' where "results' = results[idx := results ! idx + 1]"
    have step: "distribute remaining (idx # order) results = distribute (remaining - 1) order results'"
      using nle idx(1) by (simp add: results'_def)
    have rem': "sint (remaining - 1) = sint remaining - 1" using pos by (rule sint64_pred)
    have notin: "idx \<notin> set order" and dist: "distinct order" using Cons.prems(1) by simp_all
    have same: "results' ! i = results ! i" if "i \<in> set order" for i
    proof -
      from that notin have "idx \<noteq> i" by blast
      then show ?thesis by (simp add: results'_def)
    qed
    have p2: "\<forall>i\<in>set order. i < length results' \<and> sint (results' ! i) < 2 ^ 63 - 1"
      using Cons.prems(2) same by (simp add: results'_def)
    have p3: "0 \<le> sint (remaining - 1)" "sint (remaining - 1) \<le> int (length order)"
      using pos Cons.prems(4) by (simp_all add: rem')
    from Cons.IH [OF dist p2 p3] obtain res where
      R: "distribute (remaining - 1) order results' = Inr res" "length res = length results'"
      "sum_list (map sint res) = sum_list (map sint results') + sint (remaining - 1)"
      "\<forall>i<length results'. res ! i = results' ! i \<or> (i \<in> set order \<and> res ! i = results' ! i + 1)"
      by blast
    have s: "sum_list (map sint results') = sum_list (map sint results) + 1"
      unfolding results'_def using sum_list_sint_update [OF idx(1)] sint64_succ [OF idx(2)] by simp
    have 1: "length res = length results" using R(2) by (simp add: results'_def)
    have 2: "sum_list (map sint res) = sum_list (map sint results) + sint remaining"
      using R(3) s rem' by simp
    have 3: "res ! i = results ! i \<or> (i \<in> set (idx # order) \<and> res ! i = results ! i + 1)"
      if "i < length results" for i
    proof (cases "i = idx")
      case True
      then have "res ! i = results' ! i" using R(4) notin that by (auto simp add: results'_def)
      then show ?thesis using True that by (simp add: results'_def)
    next
      case False
      then have "results' ! i = results ! i" by (simp add: results'_def)
      then show ?thesis using R(4) that by (auto simp add: results'_def)
    qed
    from step R(1) 1 2 3 show ?thesis by simp
  qed
qed
lemma sum_list_word_of_sint: "(sum_list xs :: goint) = word_of_int (sum_list (map sint xs))"
  by (induction xs) simp_all

lemma member_le_sum_list_int:
  assumes "\<forall>x\<in>set xs. (0::int) \<le> x" "x \<in> set xs"
  shows "x \<le> sum_list xs"
  using assms
proof (induction xs)
  case Nil
  then show ?case by simp
next
  case (Cons y ys)
  have "0 \<le> sum_list ys" using Cons.prems(1) by (intro sum_list_nonneg) simp
  then show ?case using Cons by auto
qed

lemma normalize_core:
  assumes tot: "0 < sint tot" and nn: "\<forall>w\<in>set ws. 0 \<le> sint w"
    and sum: "sum_list (map sint ws) = sint tot"
  shows "\<exists>results remainders res.
           percentages tot ws = Inr (results, remainders)
         \<and> distribute (100 - intSum results) (argsort remainders) results = Inr res
         \<and> length results = length ws \<and> length res = length ws
         \<and> (\<forall>r\<in>set results. 0 \<le> sint r \<and> sint r \<le> 100)
         \<and> sum_list (map sint res) = 100
         \<and> (\<forall>i<length ws. res ! i = results ! i \<or> res ! i = results ! i + 1)"
proof -
  have le: "\<forall>w\<in>set ws. 0 \<le> sint w \<and> sint w \<le> sint tot"
  proof
    fix w assume w: "w \<in> set ws"
    have "sint w \<le> sum_list (map sint ws)"
      using nn w by (intro member_le_sum_list_int) auto
    then show "0 \<le> sint w \<and> sint w \<le> sint tot" using nn w sum by simp
  qed
  from percentages_ok [OF tot le] obtain results remainders where
    P: "percentages tot ws = Inr (results, remainders)"
    and len: "length results = length ws" "length remainders = length ws"
    and rng: "\<forall>r\<in>set results. 0 \<le> sint r \<and> sint r \<le> 100"
    and hi: "(of_int (sum_list (map sint results)) :: rat)
                \<le> 201 / 2 * (of_int (sum_list (map sint ws)) / of_int (sint tot))"
    and lo: "199 / 2 * (of_int (sum_list (map sint ws)) / of_int (sint tot)) - of_nat (length ws)
                \<le> (of_int (sum_list (map sint results)) :: rat)"
    by blast
  define s where "s = sum_list (map sint results)"
  have "sint tot \<noteq> 0" using tot by simp
  then have "(of_int (sint tot) :: rat) \<noteq> 0" by (simp only: of_int_eq_0_iff not_False_eq_True)
  then have one: "(of_int (sum_list (map sint ws)) :: rat) / of_int (sint tot) = 1"
    unfolding sum by (rule divide_self)
  have "(of_int s :: rat) \<le> 201 / 2" using hi unfolding one s_def by simp
  then have "(of_int s :: rat) < of_int 101" by simp
  then have "s < 101" by (simp only: of_int_less_iff)
  then have s_hi: "s \<le> 100" by simp
  have "199 / 2 - of_int (int (length ws)) \<le> (of_int s :: rat)" using lo unfolding one s_def by simp
  then have "(of_int (99 - int (length ws)) :: rat) < of_int s" by simp
  then have "99 - int (length ws) < s" by (simp only: of_int_less_iff)
  then have s_lo: "100 - int (length ws) \<le> s" by simp
  have s0: "0 \<le> s" unfolding s_def using rng by (intro sum_list_nonneg) auto
  define remaining :: goint where "remaining = 100 - intSum results"
  have "remaining = word_of_int (100 - s)"
    by (simp add: remaining_def intSum_eq s_def sum_list_word_of_sint [of results])
  then have rem: "sint remaining = 100 - s"
    using s0 s_hi by (simp only: ) (rule sint64_of_int, simp_all)
  note A = argsort_props [of remainders]
  have d2: "\<forall>i\<in>set (argsort remainders). i < length results \<and> sint (results ! i) < 2 ^ 63 - 1"
  proof
    fix i assume "i \<in> set (argsort remainders)"
    then have i: "i < length results" using A(2) len by simp
    then have "sint (results ! i) \<le> 100" using rng by simp
    then show "i < length results \<and> sint (results ! i) < 2 ^ 63 - 1" using i by simp
  qed
  have d3: "0 \<le> sint remaining" using rem s_hi by simp
  have d4: "sint remaining \<le> int (length (argsort remainders))"
    using rem s_lo A(3) len by simp
  from distribute_ok [OF A(1) d2 d3 d4] obtain res where
    D: "distribute remaining (argsort remainders) results = Inr res" "length res = length results"
    "sum_list (map sint res) = sum_list (map sint results) + sint remaining"
    "\<forall>i<length results. res ! i = results ! i \<or> (i \<in> set (argsort remainders) \<and> res ! i = results ! i + 1)"
    by blast
  have "sum_list (map sint res) = 100" using D(3) rem by (simp add: s_def)
  moreover have "\<forall>i<length ws. res ! i = results ! i \<or> res ! i = results ! i + 1"
    using D(4) len by auto
  ultimately show ?thesis using P D(1,2) len rng unfolding remaining_def by auto
qed

lemma sint_sum_no_overflow:
  assumes "\<forall>w\<in>set ws. 0 \<le> sint w" "sum_list (map sint ws) < 2 ^ 63"
  shows "sint (intSum ws) = sum_list (map sint (ws :: goint list))"
proof -
  have "0 \<le> sum_list (map sint ws)" using assms(1) by (intro sum_list_nonneg) auto
  then have "sint (word_of_int (sum_list (map sint ws)) :: goint) = sum_list (map sint ws)"
    using assms(2) by (intro sint64_of_int) simp_all
  then show ?thesis by (simp only: intSum_eq sum_list_word_of_sint [of ws])
qed

lemma percentages_replicate:
  assumes "percentages tot [c] = Inr ([r], [m])"
  shows "percentages tot (replicate n c) = Inr (replicate n r, replicate n m)"
proof (induction n)
  case 0
  show ?case by simp
next
  case (Suc n)
  from assms obtain perc p where
    "f64_div (f64_of_int c) (f64_of_int tot) = Some perc" "f64_mul perc 100 = Some p"
    "f64_to_int p = Some r" "f64_sub p (f64_of_int r) = Some m"
    by (auto split: option.splits)
  then show ?case using Suc by simp
qed

lemma sum_list_lower:
  assumes "\<forall>e\<in>set xs. (lo::int) \<le> e"
  shows "int (length xs) * lo \<le> sum_list xs"
  using assms by (induction xs) (auto simp add: algebra_simps)

lemma sum_list_upper:
  assumes "\<forall>e\<in>set xs. e \<le> (hi::int)"
  shows "sum_list xs \<le> int (length xs) * hi"
  using assms by (induction xs) (auto simp add: algebra_simps)

lemma sum_list_upper_strict:
  assumes "\<forall>e\<in>set xs. e \<le> (hi::int)" "x \<in> set xs" "x < hi"
  shows "sum_list xs < int (length xs) * hi"
  using assms
proof (induction xs)
  case Nil
  then show ?case by simp
next
  case (Cons y ys)
  have u: "sum_list ys \<le> int (length ys) * hi" using Cons.prems(1) by (intro sum_list_upper) simp
  show ?case
  proof (cases "x = y")
    case True
    then show ?thesis using u Cons.prems(3) by (simp add: algebra_simps)
  next
    case False
    then have "sum_list ys < int (length ys) * hi" using Cons by simp
    moreover have "y \<le> hi" using Cons.prems(1) by simp
    ultimately show ?thesis by (simp add: algebra_simps)
  qed
qed

lemma uniform_split:
  assumes each: "\<forall>e\<in>set xs. e = \<rho> \<or> e = \<rho> + 1" and sum: "sum_list xs = (100::int)"
    and ne: "xs \<noteq> []"
  shows "\<forall>e\<in>set xs. e = 100 div int (length xs) \<or> e = 100 div int (length xs) + 1"
proof -
  define n where "n = int (length xs)"
  have n: "0 < n" using ne by (simp add: n_def)
  have "\<forall>e\<in>set xs. \<rho> \<le> e" using each by auto
  then have lo: "n * \<rho> \<le> 100"
    using sum_list_lower [of xs \<rho>] sum by (simp add: n_def)
  have "\<forall>e\<in>set xs. e \<le> \<rho> + 1" using each by auto
  then have hi: "100 \<le> n * (\<rho> + 1)"
    using sum_list_upper [of xs "\<rho> + 1"] sum by (simp add: n_def)
  show ?thesis
  proof (cases "100 < n * (\<rho> + 1)")
    case True
    have "100 div n = \<rho>"
    proof (rule int_div_pos_eq [where r = "100 - n * \<rho>"])
      show "100 = n * \<rho> + (100 - n * \<rho>)" by simp
      show "0 \<le> 100 - n * \<rho>" using lo by simp
      show "100 - n * \<rho> < n" using True by (simp add: algebra_simps)
    qed
    then show ?thesis using each by (simp add: n_def)
  next
    case False
    with hi have eq: "n * (\<rho> + 1) = 100" by simp
    have "n * (\<rho> + 1) div n = \<rho> + 1" using n by simp
    then have d: "100 div n = \<rho> + 1" by (simp only: eq)
    have "e = \<rho> + 1" if e: "e \<in> set xs" for e
    proof (rule ccontr)
      assume "e \<noteq> \<rho> + 1"
      then have "e < \<rho> + 1" using each e by auto
      moreover have "\<forall>e\<in>set xs. e \<le> \<rho> + 1" using each by auto
      ultimately have "sum_list xs < int (length xs) * (\<rho> + 1)"
        using e by (intro sum_list_upper_strict [of xs "\<rho> + 1" e])
      then show False using sum eq by (simp add: n_def)
    qed
    then show ?thesis using d by (simp add: n_def)
  qed
qed

lemma sint_of_nat64:
  assumes "n < 2 ^ 63"
  shows "sint (of_nat n :: goint) = int n"
proof -
  have "(of_nat n :: goint) = word_of_int (int n)" by simp
  moreover have "int n < 2 ^ 63" using assms by (metis of_nat_less_iff of_nat_numeral of_nat_power)
  ultimately show ?thesis by (simp only: ) (rule sint64_of_int, simp_all)
qed

lemma cx_f1: "f64_rnd 4611686018427387904 = 4611686018427387904"
  using f64_rnd_exact [of 1 62] by simp

lemma cx_f2: "f64_rnd (- 9223372036854775808) = - 9223372036854775808"
  using f64_rnd_exact [of "- 1" 63] by simp

lemma cx_f3: "f64_rnd (- (1 / 2)) = - (1 / 2)"
  using f64_rnd_exact [of "- 1" "- 1"] by (simp add: power_int_minus_divide)

lemma cx_f4: "f64_rnd (- 50) = - 50"
  using f64_rnd_int_exact [of "- 50"] by simp

lemma cx_perc:
  "percentages 9223372036854775808 [4611686018427387904, 4611686018427387904]
     = Inr ([- 50, - 50], [0, 0])"
proof -
  have a: "f64_of_int 4611686018427387904 = 4611686018427387904"
    by (simp add: f64_of_int_def cx_f1)
  have b: "f64_of_int 9223372036854775808 = - 9223372036854775808"
    by (simp add: f64_of_int_def cx_f2)
  have c: "f64_of_int (- 50) = - 50" by (simp add: f64_of_int_def cx_f4)
  have d: "f64_div 4611686018427387904 (- 9223372036854775808) = Some (- (1 / 2))"
    by (simp add: f64_div_def f64_round_finite cx_f3)
  have e: "f64_mul (- (1 / 2)) 100 = Some (- 50)"
    by (simp add: f64_mul_def f64_round_finite cx_f4)
  have f: "f64_to_int (- 50) = Some (- 50)" by (simp add: f64_to_int_def)
  have g: "f64_sub (- 50) (- 50) = Some 0" by (simp add: f64_sub_def f64_round_finite f64_rnd_zero)
  show ?thesis by (simp add: a b c d e f g)
qed

subsection \<open>The ownership map\<close>

lemma owners_appendOwner:
  "owners (appendOwner name m k') k = owners m k @ (if k = k' then [name] else [])"
  by (simp add: owners_def appendOwner_def)

lemma dom_appendOwner: "dom (appendOwner name m k) = insert k (dom m)"
  by (auto simp add: appendOwner_def)

lemma owners_foldl_appendOwner:
  "owners (foldl (\<lambda>m c. appendOwner name m (f c)) m cs) k
     = owners m k @ replicate (length (filter (\<lambda>c. f c = k) cs)) name"
proof (induction cs arbitrary: m)
  case Nil
  show ?case by simp
next
  case (Cons c cs)
  show ?case by (simp add: Cons.IH owners_appendOwner replicate_app_Cons_same)
qed

lemma dom_foldl_appendOwner:
  "dom (foldl (\<lambda>m c. appendOwner name m (f c)) m cs) = dom m \<union> f ` set cs"
  by (induction cs arbitrary: m) (auto simp add: dom_appendOwner)

lemma owners_foldl_keys:
  "owners (foldl (appendOwner name) m ks) k
     = owners m k @ replicate (length (filter (\<lambda>c. c = k) ks)) name"
proof (induction ks arbitrary: m)
  case Nil
  show ?case by simp
next
  case (Cons c cs)
  show ?case by (simp add: Cons.IH owners_appendOwner replicate_app_Cons_same)
qed

lemma dom_foldl_keys: "dom (foldl (appendOwner name) m ks) = dom m \<union> set ks"
  by (induction ks arbitrary: m) (auto simp add: dom_appendOwner)

lemma owners_Some: "m k = Some gws \<Longrightarrow> owners m k = gws"
  by (simp add: owners_def)

lemma in_dom_owners: "k \<in> dom m \<Longrightarrow> m k = Some (owners m k)"
  by (auto simp add: owners_def)

lemma mesh_key:
  assumes "hr \<in> set (HTTPRoute r)" "getGatewaySelectorFromSpec (Spec hr) = Some g"
    "ref \<in> set (rg_GatewayRefs g)" "gr_Name ref = experimentalMeshGatewayName"
  shows "toRouteKey hr \<in> set (fetchMeshRoutes r)"
proof -
  have "rg_GatewayRefs g \<noteq> []" using assms(3) by auto
  then show ?thesis using assms by (auto simp add: fetchMeshRoutes_def intro!: bexI [of _ hr] bexI [of _ ref])
qed

subsection \<open>The gateway converter as a function\<close>

lemma forEach_append:
  "forEach body (xs @ ys) st
     = (case forEach body xs st of Inl e \<Rightarrow> Inl e | Inr st' \<Rightarrow> forEach body ys st')"
  by (induction xs arbitrary: st) (simp_all split: sum.splits)

lemma writeListenerStatus_eq:
  "writeListenerStatus now obj i l (GatewayStatusP gs)
     = (if length (gs_Listeners gs) \<le> i then Inl IndexOutOfRange
        else Inr (GatewayStatusP
                    (gs\<lparr>gs_Listeners := (gs_Listeners gs)
                           [i := listenerStatusOf now obj l (gs_Listeners gs ! i)]\<rparr>)))"
  by (simp add: writeListenerStatus_def listenerStatusOf_def Let_def)

lemma listener_loop:
  assumes "length (gs_Listeners gs) = n" "k + length ls \<le> n"
  shows "\<exists>gs'. forEach (listenerStep sel now r obj name) (zip [k..<k + length ls] ls)
                  (GatewayStatusP gs, servers, m)
               = Inr (GatewayStatusP gs', servers @ map (listenerServer obj) ls,
                      foldl (\<lambda>m l. bindRoutes sel r obj name l m) m ls)
             \<and> length (gs_Listeners gs') = n
             \<and> (\<forall>j<length ls. gs_Listeners gs' ! (k + j)
                                 = listenerStatusOf now obj (ls ! j) (gs_Listeners gs ! (k + j)))
             \<and> (\<forall>j<k. gs_Listeners gs' ! j = gs_Listeners gs ! j)
             \<and> gs_Addresses gs' = gs_Addresses gs \<and> gs_Conditions gs' = gs_Conditions gs"
  using assms
proof (induction ls arbitrary: k gs servers m)
  case Nil
  then show ?case by simp
next
  case (Cons l ls)
  define gs1 where
    "gs1 = gs\<lparr>gs_Listeners := (gs_Listeners gs)[k := listenerStatusOf now obj l (gs_Listeners gs ! k)]\<rparr>"
  have kn: "k < n" using Cons.prems(2) by simp
  have "[k..<k + length (l # ls)] = k # [Suc k..<Suc k + length ls]"
    by (subst upt_conv_Cons) simp_all
  then have z: "zip [k..<k + length (l # ls)] (l # ls) = (k, l) # zip [Suc k..<Suc k + length ls] ls"
    by (simp only: zip_Cons_Cons)
  have step: "listenerStep sel now r obj name (k, l) (GatewayStatusP gs, servers, m)
      = Inr (GatewayStatusP gs1, servers @ [listenerServer obj l], bindRoutes sel r obj name l m)"
    using kn Cons.prems(1)
    by (simp add: listenerStep_def Mutate_def writeListenerStatus_eq gs1_def)
  have l1: "length (gs_Listeners gs1) = n" using Cons.prems(1) by (simp add: gs1_def)
  have l2: "Suc k + length ls \<le> n" using Cons.prems(2) by simp
  from Cons.IH [OF l1 l2, of "servers @ [listenerServer obj l]" "bindRoutes sel r obj name l m"]
  obtain gs' where
    R: "forEach (listenerStep sel now r obj name) (zip [Suc k..<Suc k + length ls] ls)
          (GatewayStatusP gs1, servers @ [listenerServer obj l], bindRoutes sel r obj name l m)
        = Inr (GatewayStatusP gs', (servers @ [listenerServer obj l]) @ map (listenerServer obj) ls,
               foldl (\<lambda>m l. bindRoutes sel r obj name l m) (bindRoutes sel r obj name l m) ls)"
    and L: "length (gs_Listeners gs') = n"
    and A: "\<forall>j<length ls. gs_Listeners gs' ! (Suc k + j)
              = listenerStatusOf now obj (ls ! j) (gs_Listeners gs1 ! (Suc k + j))"
    and B: "\<forall>j<Suc k. gs_Listeners gs' ! j = gs_Listeners gs1 ! j"
    and C: "gs_Addresses gs' = gs_Addresses gs1" "gs_Conditions gs' = gs_Conditions gs1"
    by blast
  have 1: "forEach (listenerStep sel now r obj name) (zip [k..<k + length (l # ls)] (l # ls))
             (GatewayStatusP gs, servers, m)
           = Inr (GatewayStatusP gs', servers @ map (listenerServer obj) (l # ls),
                  foldl (\<lambda>m l. bindRoutes sel r obj name l m) m (l # ls))"
    unfolding z using step R by simp
  have 2: "gs_Listeners gs' ! (k + j) = listenerStatusOf now obj ((l # ls) ! j) (gs_Listeners gs ! (k + j))"
    if "j < length (l # ls)" for j
  proof (cases j)
    case 0
    then show ?thesis using B kn Cons.prems(1) by (simp add: gs1_def)
  next
    case (Suc j')
    then have "j' < length ls" using that by simp
    then show ?thesis using A Suc by (simp add: gs1_def)
  qed
  have 3: "gs_Listeners gs' ! j = gs_Listeners gs ! j" if "j < k" for j
    using B that by (simp add: gs1_def)
  have 4: "gs_Addresses gs' = gs_Addresses gs" "gs_Conditions gs' = gs_Conditions gs"
    using C by (simp_all add: gs1_def)
  from 1 L 2 3 4 show ?case by blast
qed

lemma classStep_eq:
  "classStep now obj (classes, objs)
     = (if wellTypedClass obj
        then Inr ((if isOurClass obj then insert (m_Name (Meta obj)) classes else classes),
                  objs @ [classAfter now obj])
        else Inl InterfaceConversion)"
  by (auto simp add: classStep_def wellTypedClass_def isOurClass_def classAfter_def Mutate_def
      writeClassStatus_def isGatewayClassStatus_def split: Spec.splits Status.splits)

lemma class_loop:
  "forEach (classStep now) xs (classes, objs)
     = (if list_all wellTypedClass xs
        then Inr (classes \<union> set (map (\<lambda>obj. m_Name (Meta obj)) (filter isOurClass xs)),
                  objs @ map (classAfter now) xs)
        else Inl InterfaceConversion)"
proof (induction xs arbitrary: classes objs)
  case Nil
  show ?case by simp
next
  case (Cons x xs)
  show ?case by (simp add: classStep_eq Cons.IH)
qed

lemma getGatewayClasses_eq:
  "getGatewayClasses now r
     = (if list_all wellTypedClass (GatewayClass r)
        then Inr (ourClasses r, map (classAfter now) (GatewayClass r))
        else Inl InterfaceConversion)"
  by (simp add: getGatewayClasses_def class_loop ourClasses_def)

lemma prepareGatewayStatus_eq:
  "prepareGatewayStatus kgw (GatewayStatusP gs)
     = Inr (GatewayStatusP (gs\<lparr>gs_Addresses := [], gs_Listeners := preparedListeners kgw gs\<rparr>))"
  by (simp add: prepareGatewayStatus_def preparedListeners_def)

lemma length_preparedListeners: "length (preparedListeners kgw gs) = length (g_Listeners kgw)"
  by (simp add: preparedListeners_def)

lemma gatewayStep_admitted:
  assumes spec: "Spec obj = GatewaySpecP kgw" and cls: "g_GatewayClassName kgw \<in> classes"
    and st: "Status obj = GatewayStatusP gs"
  shows "gatewayStep sel now r classes obj (result, m, objs)
     = Inr (result @ [gatewayConfig r obj (gatewayName obj) (map (listenerServer obj) (g_Listeners kgw))],
            foldl (\<lambda>m l. bindRoutes sel r obj (gatewayName obj) l m) m (g_Listeners kgw),
            objs @ [obj\<lparr>Status := GatewayStatusP (gatewayStatusAfter now obj kgw gs)\<rparr>])"
proof -
  define gs0 where "gs0 = gs\<lparr>gs_Addresses := [], gs_Listeners := preparedListeners kgw gs\<rparr>"
  define ls where "ls = g_Listeners kgw"
  have l0: "length (gs_Listeners gs0) = length ls"
    by (simp add: gs0_def ls_def length_preparedListeners)
  from listener_loop [OF l0, of 0 ls sel now r obj "gatewayName obj" "[]" m]
  obtain gs1 where
    L: "forEach (listenerStep sel now r obj (gatewayName obj)) (zip [0..<length ls] ls)
          (GatewayStatusP gs0, [], m)
        = Inr (GatewayStatusP gs1, map (listenerServer obj) ls,
               foldl (\<lambda>m l. bindRoutes sel r obj (gatewayName obj) l m) m ls)"
    and len: "length (gs_Listeners gs1) = length ls"
    and ent: "\<forall>j<length ls. gs_Listeners gs1 ! j = listenerStatusOf now obj (ls ! j) (gs_Listeners gs0 ! j)"
    and rest: "gs_Addresses gs1 = gs_Addresses gs0" "gs_Conditions gs1 = gs_Conditions gs0"
    by auto
  have lst: "gs_Listeners gs1
      = map (\<lambda>(l, old). listenerStatusOf now obj l old) (zip ls (preparedListeners kgw gs))"
    by (rule nth_equalityI) (use len ent l0 in \<open>simp_all add: gs0_def\<close>)
  have fin: "writeGatewayConditions now obj (GatewayStatusP gs1)
      = Inr (GatewayStatusP (gatewayStatusAfter now obj kgw gs))"
    using rest lst
    by (simp add: writeGatewayConditions_def gatewayStatusAfter_def gatewayConditionsAfter_def
        Let_def gs0_def ls_def)
  show ?thesis
    using spec cls st L fin
    by (simp add: gatewayStep_def Mutate_def prepareGatewayStatus_eq gs0_def [symmetric]
        indexed_def ls_def [symmetric] gatewayName_def Let_def)
qed

lemma gatewayStep_eq:
  "gatewayStep sel now r classes obj (result, m, objs)
     = (if wellTypedGateway classes obj
        then Inr (result @ gatewayOut r classes obj, gatewayBind sel r classes obj m,
                  objs @ [gatewayAfter now classes obj])
        else Inl InterfaceConversion)"
proof (cases "Spec obj")
  case (GatewaySpecP kgw)
  show ?thesis
  proof (cases "g_GatewayClassName kgw \<in> classes")
    case False
    then show ?thesis using GatewaySpecP
      by (simp add: gatewayStep_def wellTypedGateway_def gatewayOut_def gatewayBind_def gatewayAfter_def)
  next
    case True
    show ?thesis
    proof (cases "Status obj")
      case (GatewayStatusP gs)
      from gatewayStep_admitted [OF GatewaySpecP True GatewayStatusP]
      show ?thesis using GatewaySpecP True GatewayStatusP
        by (simp add: wellTypedGateway_def isGatewayStatus_def gatewayOut_def gatewayBind_def
            gatewayAfter_def)
    qed (use GatewaySpecP True in \<open>simp_all add: gatewayStep_def wellTypedGateway_def
          isGatewayStatus_def Mutate_def prepareGatewayStatus_def\<close>)
  qed
qed (simp_all add: gatewayStep_def wellTypedGateway_def)

lemma gateway_loop:
  "forEach (gatewayStep sel now r classes) xs (result, m, objs)
     = (if list_all (wellTypedGateway classes) xs
        then Inr (result @ concat (map (gatewayOut r classes) xs),
                  foldl (\<lambda>m obj. gatewayBind sel r classes obj m) m xs,
                  objs @ map (gatewayAfter now classes) xs)
        else Inl InterfaceConversion)"
proof (induction xs arbitrary: result m objs)
  case Nil
  show ?case by simp
next
  case (Cons x xs)
  show ?case by (simp add: gatewayStep_eq Cons.IH)
qed

lemma convertGateway_eq:
  "convertGateway sel now r
     = (if wellTypedGateways r
        then Inr (concat (map (gatewayOut r (ourClasses r)) (Gateway r)),
                  routeMapOf sel r,
                  map (classAfter now) (GatewayClass r),
                  map (gatewayAfter now (ourClasses r)) (Gateway r))
        else Inl InterfaceConversion)"
  by (simp add: convertGateway_def getGatewayClasses_eq gateway_loop wellTypedGateways_def
      routeMapOf_def)

subsection \<open>Destinations\<close>

lemma httpDestination_eq:
  "httpDestination weights ns domain (i, fwd) res
     = (if i < length weights then Inr (res @ [httpDestinationOf weights ns domain (i, fwd)])
        else Inl IndexOutOfRange)"
  by (simp add: httpDestination_def httpDestinationOf_def)

lemma tcpDestination_eq:
  "tcpDestination weights ns domain (i, fwd) res
     = (if i < length weights then Inr (res @ [tcpDestinationOf weights ns domain (i, fwd)])
        else Inl IndexOutOfRange)"
  by (simp add: tcpDestination_def tcpDestinationOf_def)

lemma http_dest_loop:
  "forEach (httpDestination weights ns domain) ixs res
     = (if list_all (\<lambda>(i, fwd). i < length weights) ixs
        then Inr (res @ map (httpDestinationOf weights ns domain) ixs)
        else Inl IndexOutOfRange)"
proof (induction ixs arbitrary: res)
  case Nil
  show ?case by simp
next
  case (Cons x xs)
  obtain i fwd where x: "x = (i, fwd)" by (cases x)
  show ?case by (simp add: x httpDestination_eq Cons.IH)
qed

lemma tcp_dest_loop:
  "forEach (tcpDestination weights ns domain) ixs res
     = (if list_all (\<lambda>(i, fwd). i < length weights) ixs
        then Inr (res @ map (tcpDestinationOf weights ns domain) ixs)
        else Inl IndexOutOfRange)"
proof (induction ixs arbitrary: res)
  case Nil
  show ?case by simp
next
  case (Cons x xs)
  obtain i fwd where x: "x = (i, fwd)" by (cases x)
  show ?case by (simp add: x tcpDestination_eq Cons.IH)
qed

lemma map_snd_indexed: "map snd (indexed xs) = xs"
  by (simp add: indexed_def)

lemma length_indexed: "length (indexed xs) = length xs"
  by (simp add: indexed_def)

lemma http_destinations:
  assumes "buildHTTPDestination action ns domain = Inr res"
  shows "map hd_Destination res = map (\<lambda>fwd. Some (buildDestination fwd ns domain)) action"
proof (cases "action = []")
  case True
  then show ?thesis using assms by (simp add: buildHTTPDestination_def)
next
  case False
  from assms False obtain weights where
    "forEach (httpDestination weights ns domain) (indexed action) [] = Inr res"
    by (auto simp add: buildHTTPDestination_def split: sum.splits)
  then have res: "res = map (httpDestinationOf weights ns domain) (indexed action)"
    by (simp add: http_dest_loop split: if_splits)
  have "map hd_Destination res
      = map (\<lambda>fwd. Some (buildDestination fwd ns domain)) (map snd (indexed action))"
    unfolding res by (simp add: httpDestinationOf_def case_prod_unfold)
  then show ?thesis by (simp only: map_snd_indexed)
qed

lemma tcp_destinations:
  assumes "buildTCPDestination action ns domain = Inr res"
  shows "map rd_Destination res = map (\<lambda>fwd. Some (buildGenericDestination fwd ns domain)) action"
proof (cases "action = []")
  case True
  then show ?thesis using assms by (simp add: buildTCPDestination_def)
next
  case False
  from assms False obtain weights where
    "forEach (tcpDestination weights ns domain) (indexed action) [] = Inr res"
    by (auto simp add: buildTCPDestination_def split: sum.splits)
  then have res: "res = map (tcpDestinationOf weights ns domain) (indexed action)"
    by (simp add: tcp_dest_loop split: if_splits)
  have "map rd_Destination res
      = map (\<lambda>fwd. Some (buildGenericDestination fwd ns domain)) (map snd (indexed action))"
    unfolding res by (simp add: tcpDestinationOf_def case_prod_unfold)
  then show ?thesis by (simp only: map_snd_indexed)
qed

lemma f64_rnd_half: "f64_rnd (1 / 2) = 1 / 2"
  using f64_rnd_exact [of 1 "- 1"] by (simp add: power_int_minus_divide)

lemma f64_of_int_small:
  assumes "- (2 ^ 31) \<le> sint w" "sint w < 2 ^ 31"
  shows "f64_of_int w = of_int (sint w)"
  unfolding f64_of_int_def using assms by (intro f64_rnd_int_exact) simp

lemma percentages_1_1: "percentages 2 [1, 1] = Inr ([50, 50], [0, 0])"
proof -
  have a: "f64_of_int 1 = 1" "f64_of_int 2 = 2" "f64_of_int 50 = 50"
    using f64_of_int_small [of 1] f64_of_int_small [of 2] f64_of_int_small [of 50] by simp_all
  have r50: "f64_rnd 50 = 50" using f64_rnd_int_exact [of 50] by simp
  have d: "f64_div 1 2 = Some (1 / 2)"
    by (simp add: f64_div_def f64_round_finite f64_rnd_half)
  have e: "f64_mul (1 / 2) 100 = Some 50"
    by (simp add: f64_mul_def f64_round_finite r50)
  have f: "f64_to_int 50 = Some 50" by (simp add: f64_to_int_def)
  have g: "f64_sub 50 50 = Some 0" by (simp add: f64_sub_def f64_round_finite f64_rnd_zero)
  show ?thesis by (simp add: a d e f g)
qed

lemma standardizeWeights_1_1: "standardizeWeights [1, 1] = Inr [50, 50]"
proof -
  have "intSum [1, 1] = (2 :: goint)" by (simp add: intSum_def)
  moreover have "argsort [0, 0] = [0, 1]" by (simp add: argsort_def insertionSort_def)
  moreover have "intSum [50, 50] = (100 :: goint)" by (simp add: intSum_def)
  moreover have "distribute 0 [0, 1] [50, 50] = Inr [50, 50]" by (simp add: word_sle_eq)
  ultimately show ?thesis
    by (simp add: standardizeWeights_def percentages_1_1 del: percentages.simps distribute.simps)
qed

lemma exTargets_destinations:
  "buildHTTPDestination [exServiceTarget, exBackendTarget] ''bookinfo'' ''cluster.local''
     = Inr [\<lparr>hd_Destination = Some \<lparr>d_Host = ''reviews.bookinfo.svc.cluster.local'', d_Port = None\<rparr>,
             hd_Weight = 50, hd_Headers = None\<rparr>,
            \<lparr>hd_Destination = Some \<lparr>d_Host = '''', d_Port = None\<rparr>, hd_Weight = 50,
             hd_Headers = None\<rparr>]"
proof -
  have "map (\<lambda>w. scast (hft_Weight w)) [exServiceTarget, exBackendTarget] = [1, 1 :: goint]"
    by (simp add: exServiceTarget_def exBackendTarget_def)
  then show ?thesis
    by (simp add: buildHTTPDestination_def standardizeWeights_1_1 httpDestination_eq indexed_def
        httpDestinationOf_def exBackendTarget_def exServiceTarget_def buildDestination_def
        applyFilters_def upt_rec)
qed

section \<open>Results\<close>

subsection \<open>The weight normalizer on a single weight and on no weight\<close>

text \<open>
  C7. For every list of exactly one weight, whatever its value, \<open>standardizeWeights\<close>
  returns the one-element list \<open>[0]\<close>.
\<close>

theorem standardizeWeights_single: "standardizeWeights [w] = Inr [0]"
  by (simp add: standardizeWeights_def)

text \<open>
  C9. On the empty list \<open>standardizeWeights\<close> returns the empty list: the total is
  zero, the fallback sets it to the length (zero again), and neither loop has an entry to
  work on, so no division by the zero total takes place (in this model such a division
  would end in \<open>Inl UnspecifiedConversion\<close>).
\<close>

theorem standardizeWeights_empty: "standardizeWeights [] = Inr []"
  by (simp add: standardizeWeights_def intSum_def argsort_def insertionSort_def)

subsection \<open>The weight normalizer on two or more weights\<close>

text \<open>
  C1 (as stated). The claim speaks of every list of non-negative weights. The sum of the
  weights is computed in \<open>int\<close> and wraps: for the two weights \<open>2 ^ 62\<close> and
  \<open>2 ^ 62\<close> the total is \<open>- 2 ^ 63\<close>, both percentages are \<open>- 50\<close>, and the result is
  \<open>[- 49, - 49]\<close>, which sums to \<open>- 98\<close>.
\<close>

theorem standardizeWeights_overflow_counterexample:
  "0 < sint (2 ^ 62 :: goint) \<and> length [2 ^ 62, 2 ^ 62 :: goint] = 2
   \<and> standardizeWeights [2 ^ 62, 2 ^ 62] = Inr [- 49, - 49]
   \<and> sum_list (map sint [- 49, - 49 :: goint]) = - 98"
proof -
  have "intSum [4611686018427387904, 4611686018427387904] = (9223372036854775808 :: goint)"
    by (simp add: intSum_def)
  moreover have "argsort [0, 0] = [0, 1]" by (simp add: argsort_def insertionSort_def)
  moreover have "intSum [- 50, - 50] = (- 100 :: goint)" by (simp add: intSum_def)
  moreover have "distribute 200 [0, 1] [- 50, - 50] = Inr [- 49, - 49]"
    by (simp add: word_sle_eq)
  ultimately show ?thesis
    by (simp add: standardizeWeights_def cx_perc del: percentages.simps distribute.simps)
qed

text \<open>
  C1 (amended). For every list of at least two non-negative weights, one of them
  positive, whose sum fits into an \<open>int\<close> (it is below \<open>2 ^ 63\<close>; the callers pass
  32-bit weights), \<open>standardizeWeights\<close> returns a list of the same length whose
  elements sum to exactly 100. The float64 arithmetic is the rounded one of the model.
\<close>

theorem standardizeWeights_sum_100:
  assumes "2 \<le> length weights"
    and "\<forall>w\<in>set weights. 0 \<le> sint w"
    and "\<exists>w\<in>set weights. 0 < sint w"
    and "sum_list (map sint weights) < 2 ^ 63"
  shows "\<exists>res. standardizeWeights weights = Inr res \<and> length res = length weights
           \<and> sum_list (map sint res) = 100"
proof -
  from assms(3) obtain w where w: "w \<in> set weights" "0 < sint w" by blast
  have "sint w \<le> sum_list (map sint weights)"
    using assms(2) w(1) by (intro member_le_sum_list_int) auto
  then have pos: "0 < sum_list (map sint weights)" using w(2) by linarith
  have s: "sint (intSum weights) = sum_list (map sint weights)"
    using assms(2,4) by (rule sint_sum_no_overflow)
  then have tot: "0 < sint (intSum weights)" using pos by simp
  then have nz: "intSum weights \<noteq> 0" by auto
  from normalize_core [OF tot assms(2) s [symmetric]] obtain results remainders res where
    "percentages (intSum weights) weights = Inr (results, remainders)"
    "distribute (100 - intSum results) (argsort remainders) results = Inr res"
    "length res = length weights" "sum_list (map sint res) = 100"
    by blast
  then show ?thesis using assms(1) nz by (simp add: standardizeWeights_def)
qed

theorem standardizeWeights_sum_100_witness:
  "2 \<le> length [1, 3 :: goint] \<and> 0 \<le> sint (1 :: goint) \<and> 0 \<le> sint (3 :: goint)
   \<and> 0 < sint (3 :: goint)
   \<and> sum_list (map sint [1, 3 :: goint]) < 2 ^ 63
   \<and> (\<exists>res. standardizeWeights [1, 3] = Inr res \<and> length res = length [1, 3 :: goint]
              \<and> sum_list (map sint res) = 100)"
proof -
  have h: "2 \<le> length [1, 3 :: goint]" "\<forall>w\<in>set [1, 3 :: goint]. 0 \<le> sint w"
    "\<exists>w\<in>set [1, 3 :: goint]. 0 < sint w" "sum_list (map sint [1, 3 :: goint]) < 2 ^ 63"
    by simp_all
  from standardizeWeights_sum_100 [OF h] show ?thesis by simp
qed

text \<open>
  C6. For every all-zero list of length \<open>N \<ge> 2\<close> (a Go slice: \<open>N < 2 ^ 63\<close>),
  \<open>standardizeWeights\<close> returns a list of length \<open>N\<close> that sums to exactly 100 and
  whose entries are all \<open>100 div N\<close> or \<open>100 div N + 1\<close>.
\<close>

theorem standardizeWeights_all_zero:
  assumes zero: "\<forall>w\<in>set weights. w = 0" and two: "2 \<le> length weights"
    and len: "length weights < 2 ^ 63"
  shows "\<exists>res. standardizeWeights weights = Inr res \<and> length res = length weights
           \<and> sum_list (map sint res) = 100
           \<and> (\<forall>e\<in>set res. sint e = 100 div int (length weights)
                          \<or> sint e = 100 div int (length weights) + 1)"
proof -
  define n where "n = length weights"
  define tot :: goint where "tot = of_nat n"
  define ones :: "goint list" where "ones = map (\<lambda>_. 1) weights"
  have ones: "ones = replicate n 1" by (simp add: ones_def n_def map_replicate_const)
  have "sum_list ws = 0" if "\<forall>w\<in>set ws. w = 0" for ws :: "goint list"
    using that by (induction ws) simp_all
  then have z: "intSum weights = 0" using zero by (simp add: intSum_eq)
  have st: "sint tot = int n" unfolding tot_def using len by (intro sint_of_nat64) (simp add: n_def)
  have n0: "0 < n" using two unfolding n_def by linarith
  have tot: "0 < sint tot" using st n0 by simp
  have nn: "\<forall>w\<in>set ones. 0 \<le> sint w" by (simp add: ones)
  have sum: "sum_list (map sint ones) = sint tot" by (simp add: ones st sum_list_replicate)
  from normalize_core [OF tot nn sum] obtain results remainders res where
    P: "percentages tot ones = Inr (results, remainders)"
    and D: "distribute (100 - intSum results) (argsort remainders) results = Inr res"
    and L: "length results = length ones" "length res = length ones"
    and R: "\<forall>r\<in>set results. 0 \<le> sint r \<and> sint r \<le> 100"
    and S: "sum_list (map sint res) = 100"
    and E: "\<forall>i<length ones. res ! i = results ! i \<or> res ! i = results ! i + 1"
    by blast
  have one: "\<forall>w\<in>set [1::goint]. 0 \<le> sint w \<and> sint w \<le> sint tot" using tot by simp
  from percentages_ok [OF tot one] obtain r m where "percentages tot [1] = Inr ([r], [m])"
    by (auto simp add: length_Suc_conv)
  then have "percentages tot ones = Inr (replicate n r, replicate n m)"
    unfolding ones by (rule percentages_replicate)
  with P have res: "results = replicate n r" by simp
  have r: "0 \<le> sint r" "sint r \<le> 100" using R n0 by (simp_all add: res)
  then have r1: "sint (r + 1) = sint r + 1" by (intro sint64_succ) simp
  have std: "standardizeWeights weights = Inr res"
    using two z P D by (simp add: standardizeWeights_def ones_def tot_def n_def)
  have lres: "length res = length weights" using L(2) by (simp add: ones_def)
  have each: "\<forall>e\<in>set (map sint res). e = sint r \<or> e = sint r + 1"
  proof
    fix e assume "e \<in> set (map sint res)"
    then obtain i where i: "i < length res" "e = sint (res ! i)"
      by (auto simp add: in_set_conv_nth)
    then have "i < n" using lres by (simp add: n_def)
    then have "res ! i = r \<or> res ! i = r + 1" using E by (simp add: ones res)
    then show "e = sint r \<or> e = sint r + 1" using i(2) r1 by auto
  qed
  have "res \<noteq> []" using lres two by (cases res) simp_all
  then have "map sint res \<noteq> []" by simp
  from uniform_split [OF each S this]
  have "\<forall>e\<in>set res. sint e = 100 div int (length weights) \<or> sint e = 100 div int (length weights) + 1"
    by (simp add: lres)
  with std lres S show ?thesis by blast
qed

theorem standardizeWeights_all_zero_witness:
  "2 \<le> length [0, 0, 0 :: goint]
   \<and> length [0, 0, 0 :: goint] < 2 ^ 63
   \<and> (\<exists>res. standardizeWeights [0, 0, 0] = Inr res \<and> length res = length [0, 0, 0 :: goint]
              \<and> sum_list (map sint res) = 100
              \<and> (\<forall>e\<in>set res. sint e = 33 \<or> sint e = 34))"
proof -
  have h: "\<forall>w\<in>set [0, 0, 0 :: goint]. w = 0" "2 \<le> length [0, 0, 0 :: goint]"
    "length [0, 0, 0 :: goint] < 2 ^ 63"
    by simp_all
  from standardizeWeights_all_zero [OF h] show ?thesis by simp
qed

subsection \<open>The binding resolver\<close>

text \<open>
  C5. If the route's own gateway-selection policy is \<open>SameNamespace\<close> and the route's
  namespace differs from the gateway's, \<open>isRouteMatch\<close> returns false, whatever the
  listener's selector, the label selectors and the namespace index are.
\<close>

theorem isRouteMatch_SameNamespace:
  assumes "getGatewaySelectorFromSpec (Spec cfg) = Some gatewaySelector"
    and "rg_Allow gatewaySelector = GatewayAllowSameNamespace"
    and "m_Namespace gateway \<noteq> m_Namespace (Meta cfg)"
  shows "\<not> isRouteMatch labelSelectorAsSelector cfg gateway routes namespaces"
  using assms
  by (simp add: isRouteMatch_def Let_def GatewayAllowSameNamespace_def GatewayAllowAll_def
      GatewayAllowFromList_def split: option.splits)

theorem isRouteMatch_SameNamespace_witness:
  "getGatewaySelectorFromSpec
     (Spec (exHTTPRoute ''r'' ''a'' \<lparr>rg_Allow = ''SameNamespace'', rg_GatewayRefs = []\<rparr> []))
     = Some \<lparr>rg_Allow = ''SameNamespace'', rg_GatewayRefs = []\<rparr>
   \<and> rg_Allow \<lparr>rg_Allow = ''SameNamespace'', rg_GatewayRefs = []\<rparr> = GatewayAllowSameNamespace
   \<and> m_Namespace (exMeta ''Gateway'' ''g'' ''b'')
       \<noteq> m_Namespace (Meta (exHTTPRoute ''r'' ''a'' \<lparr>rg_Allow = ''SameNamespace'', rg_GatewayRefs = []\<rparr> []))
   \<and> \<not> isRouteMatch exSel
         (exHTTPRoute ''r'' ''a'' \<lparr>rg_Allow = ''SameNamespace'', rg_GatewayRefs = []\<rparr> [])
         (exMeta ''Gateway'' ''g'' ''b'') exRoutes Map.empty"
proof -
  have h: "getGatewaySelectorFromSpec
       (Spec (exHTTPRoute ''r'' ''a'' \<lparr>rg_Allow = ''SameNamespace'', rg_GatewayRefs = []\<rparr> []))
       = Some \<lparr>rg_Allow = ''SameNamespace'', rg_GatewayRefs = []\<rparr>"
    "rg_Allow \<lparr>rg_Allow = ''SameNamespace'', rg_GatewayRefs = []\<rparr> = GatewayAllowSameNamespace"
    "m_Namespace (exMeta ''Gateway'' ''g'' ''b'')
       \<noteq> m_Namespace (Meta (exHTTPRoute ''r'' ''a'' \<lparr>rg_Allow = ''SameNamespace'', rg_GatewayRefs = []\<rparr> []))"
    by (simp_all add: getGatewaySelectorFromSpec_def exHTTPRoute_def exMeta_def
        GatewayAllowSameNamespace_def)
  from h isRouteMatch_SameNamespace [OF h, of exSel exRoutes Map.empty] show ?thesis by blast
qed

subsection \<open>Mesh routes\<close>

text \<open>
  C4. Whenever \<open>convertGateway\<close> returns, every HTTP route one of whose gateway
  references is named \<open>mesh\<close> is a key of the ownership map, with \<open>mesh\<close> among
  its owners. The witness is a snapshot with no Gateway at all.
\<close>

theorem mesh_route_owned:
  assumes conv: "convertGateway sel now r = Inr (result, routeMap, gatewayClasses, gateways)"
    and hr: "hr \<in> set (HTTPRoute r)"
    and g: "getGatewaySelectorFromSpec (Spec hr) = Some gatewaySelector"
    and ref: "ref \<in> set (rg_GatewayRefs gatewaySelector)" "gr_Name ref = ''mesh''"
  shows "\<exists>gws. routeMap (toRouteKey hr) = Some gws \<and> ''mesh'' \<in> set gws"
proof -
  from conv obtain m where
    rm: "routeMap = foldl (appendOwner experimentalMeshGatewayName) m (fetchMeshRoutes r)"
    by (auto simp add: convertGateway_def split: sum.splits)
  have k: "toRouteKey hr \<in> set (fetchMeshRoutes r)"
    using hr g ref by (intro mesh_key) (simp_all add: experimentalMeshGatewayName_def)
  have "toRouteKey hr \<in> dom routeMap"
    unfolding rm dom_foldl_keys using k by simp
  then have 1: "routeMap (toRouteKey hr) = Some (owners routeMap (toRouteKey hr))"
    by (rule in_dom_owners)
  have "0 < length (filter (\<lambda>c. c = toRouteKey hr) (fetchMeshRoutes r))"
    using k by (simp add: filter_empty_conv)
  then have 2: "''mesh'' \<in> set (owners routeMap (toRouteKey hr))"
    unfolding rm owners_foldl_keys by (simp add: experimentalMeshGatewayName_def)
  from 1 2 show ?thesis by blast
qed

theorem mesh_route_owned_witness:
  "convertGateway exSel 0 exMeshSnapshot
     = Inr ([], foldl (appendOwner experimentalMeshGatewayName) Map.empty (fetchMeshRoutes exMeshSnapshot),
            [], [])
   \<and> Gateway exMeshSnapshot = []
   \<and> exMeshRoute \<in> set (HTTPRoute exMeshSnapshot)
   \<and> getGatewaySelectorFromSpec (Spec exMeshRoute)
       = Some \<lparr>rg_Allow = ''FromList'', rg_GatewayRefs = [\<lparr>gr_Name = ''mesh'', gr_Namespace = ''a''\<rparr>]\<rparr>
   \<and> (\<exists>gws. foldl (appendOwner experimentalMeshGatewayName) Map.empty (fetchMeshRoutes exMeshSnapshot)
                (toRouteKey exMeshRoute) = Some gws \<and> ''mesh'' \<in> set gws)"
proof -
  have 1: "convertGateway exSel 0 exMeshSnapshot
     = Inr ([], foldl (appendOwner experimentalMeshGatewayName) Map.empty (fetchMeshRoutes exMeshSnapshot),
            [], [])"
    by (simp add: convertGateway_def getGatewayClasses_def exMeshSnapshot_def)
  have 2: "exMeshRoute \<in> set (HTTPRoute exMeshSnapshot)" by (simp add: exMeshSnapshot_def)
  have 3: "getGatewaySelectorFromSpec (Spec exMeshRoute)
       = Some \<lparr>rg_Allow = ''FromList'', rg_GatewayRefs = [\<lparr>gr_Name = ''mesh'', gr_Namespace = ''a''\<rparr>]\<rparr>"
    by (simp add: getGatewaySelectorFromSpec_def exMeshRoute_def exHTTPRoute_def)
  have 4: "\<lparr>gr_Name = ''mesh'', gr_Namespace = ''a''\<rparr>
      \<in> set (rg_GatewayRefs \<lparr>rg_Allow = ''FromList'',
                               rg_GatewayRefs = [\<lparr>gr_Name = ''mesh'', gr_Namespace = ''a''\<rparr>]\<rparr>)"
    "gr_Name \<lparr>gr_Name = ''mesh'', gr_Namespace = ''a''\<rparr> = ''mesh''"
    by simp_all
  have 5: "Gateway exMeshSnapshot = []" by (simp add: exMeshSnapshot_def)
  from 1 2 3 5 mesh_route_owned [OF 1 2 3 4] show ?thesis by blast
qed

subsection \<open>Listener statuses\<close>

text \<open>
  C8. On every snapshot whose gateway classes and gateways have the types the converter
  asserts, \<open>convertGateway\<close> returns, and it leaves every admitted gateway with a
  listener-status sequence of the length of its listener sequence whose i-th entry reports
  the port, protocol and hostname of the i-th listener. Nothing is assumed of the statuses
  the gateway came with: a sequence of another length is reset, not a failure (the
  gateway of the witness comes with no listener status for its two listeners).
\<close>

theorem listener_status_rebuilt:
  assumes "wellTypedGateways r"
  shows "\<exists>result routeMap gatewayClasses gateways.
           convertGateway sel now r = Inr (result, routeMap, gatewayClasses, gateways)
         \<and> length gateways = length (Gateway r)
         \<and> (\<forall>i<length (Gateway r).
               admitted r (Gateway r ! i) \<longrightarrow> listenerStatusReports (Gateway r ! i) (gateways ! i))"
proof -
  define gateways where "gateways = map (gatewayAfter now (ourClasses r)) (Gateway r)"
  have conv: "convertGateway sel now r
      = Inr (concat (map (gatewayOut r (ourClasses r)) (Gateway r)), routeMapOf sel r,
             map (classAfter now) (GatewayClass r), gateways)"
    using assms by (simp add: convertGateway_eq gateways_def)
  have len: "length gateways = length (Gateway r)" by (simp add: gateways_def)
  have rep: "listenerStatusReports (Gateway r ! i) (gateways ! i)"
    if i: "i < length (Gateway r)" and adm: "admitted r (Gateway r ! i)" for i
  proof -
    define obj where "obj = Gateway r ! i"
    from adm obtain kgw where spec: "Spec obj = GatewaySpecP kgw"
      and cls: "g_GatewayClassName kgw \<in> ourClasses r"
      by (auto simp add: admitted_def obj_def split: Spec.splits)
    have "obj \<in> set (Gateway r)" using i by (simp add: obj_def)
    then have "wellTypedGateway (ourClasses r) obj"
      using assms by (simp add: wellTypedGateways_def list_all_iff)
    then obtain gs where st: "Status obj = GatewayStatusP gs"
      using spec cls by (auto simp add: wellTypedGateway_def isGatewayStatus_def split: Status.splits)
    have g: "gateways ! i = obj\<lparr>Status := GatewayStatusP (gatewayStatusAfter now obj kgw gs)\<rparr>"
      using i spec cls st by (simp add: gateways_def gatewayAfter_def obj_def)
    have "map (\<lambda>s. (ls_Port s, ls_Protocol s, ls_Hostname s))
            (gs_Listeners (gatewayStatusAfter now obj kgw gs))
          = map (\<lambda>l. (l_Port l, l_Protocol l, l_Hostname l)) (g_Listeners kgw)"
      by (rule nth_equalityI)
        (simp_all add: gatewayStatusAfter_def length_preparedListeners listenerStatusOf_def)
    then show ?thesis
      using spec by (simp add: listenerStatusReports_def g obj_def [symmetric])
  qed
  from conv len rep show ?thesis by blast
qed

theorem listener_status_rebuilt_witness:
  "wellTypedGateways (exSnapshot [exGateway [exListener 80, exListener 443] []] [])
   \<and> length (gs_Listeners \<lparr>gs_Addresses = [], gs_Conditions = [], gs_Listeners = []\<rparr>)
       \<noteq> length [exListener 80, exListener 443]
   \<and> (\<exists>result routeMap gatewayClasses gateways.
         convertGateway exSel 0 (exSnapshot [exGateway [exListener 80, exListener 443] []] [])
           = Inr (result, routeMap, gatewayClasses, gateways)
         \<and> length gateways = 1
         \<and> listenerStatusReports (exGateway [exListener 80, exListener 443] []) (gateways ! 0))"
proof -
  define r where "r = exSnapshot [exGateway [exListener 80, exListener 443] []] []"
  have g: "Gateway r = [exGateway [exListener 80, exListener 443] []]"
    and gc: "GatewayClass r = [exClass]"
    by (simp_all add: r_def exSnapshot_def)
  have cls: "ourClasses r = {''istio''}"
    by (simp add: ourClasses_def gc isOurClass_def exClass_def ControllerName_def
        exMeta_def emptyMeta_def)
  have wt: "wellTypedGateways r"
    by (simp add: wellTypedGateways_def cls g gc wellTypedClass_def exClass_def
        isGatewayClassStatus_def wellTypedGateway_def exGateway_def isGatewayStatus_def)
  have adm: "admitted r (Gateway r ! 0)"
    by (simp add: admitted_def cls g exGateway_def)
  from listener_status_rebuilt [OF wt, of exSel 0] adm
  have "\<exists>result routeMap gatewayClasses gateways.
         convertGateway exSel 0 r = Inr (result, routeMap, gatewayClasses, gateways)
         \<and> length gateways = 1
         \<and> listenerStatusReports (exGateway [exListener 80, exListener 443] []) (gateways ! 0)"
    by (auto simp add: g)
  then show ?thesis using wt by (simp add: r_def)
qed

subsection \<open>Forwarding targets of an unsupported kind\<close>

text \<open>
  C3 (as stated). A forwarding target that carries a backendRef and no serviceName is not
  dropped: \<open>buildDestination\<close> logs the error and returns a destination without a
  host, and the loop appends it like any other. For a rule with this one target the
  destination list has one entry, with the empty host, where the claim has none. The same
  holds for the TCP and TLS rules.
\<close>

theorem unsupported_target_counterexample:
  "hft_ServiceName exBackendTarget = None
   \<and> buildHTTPDestination [exBackendTarget] ''bookinfo'' ''cluster.local''
       = Inr [\<lparr>hd_Destination = Some \<lparr>d_Host = '''', d_Port = None\<rparr>, hd_Weight = 0, hd_Headers = None\<rparr>]
   \<and> ft_ServiceName exGenericBackendTarget = None
   \<and> buildTCPDestination [exGenericBackendTarget] ''bookinfo'' ''cluster.local''
       = Inr [\<lparr>rd_Destination = Some \<lparr>d_Host = '''', d_Port = None\<rparr>, rd_Weight = 0\<rparr>]"
  by (simp add: buildHTTPDestination_def buildTCPDestination_def standardizeWeights_def
      httpDestination_eq tcpDestination_eq indexed_def httpDestinationOf_def tcpDestinationOf_def
      exBackendTarget_def exGenericBackendTarget_def buildDestination_def
      buildGenericDestination_def applyFilters_def)

text \<open>
  C3 (amended). Whenever the destinations of an HTTP or a TCP/TLS rule are built, the
  destination list has exactly one entry per forwarding target, in the order of the
  targets, the target of an unsupported kind included: the entry of a target without a
  serviceName has the empty host, the entry of a target that names a service has the host
  \<open>service.namespace.svc.domain\<close>.
\<close>

theorem unsupported_target_kept:
  "(buildHTTPDestination action ns domain = Inr res \<longrightarrow>
      map hd_Destination res = map (\<lambda>fwd. Some (buildDestination fwd ns domain)) action)
   \<and> (buildTCPDestination action' ns domain = Inr res' \<longrightarrow>
      map rd_Destination res' = map (\<lambda>fwd. Some (buildGenericDestination fwd ns domain)) action')
   \<and> (hft_ServiceName to = None \<longrightarrow> d_Host (buildDestination to ns domain) = '''')
   \<and> (ft_ServiceName to' = None \<longrightarrow> d_Host (buildGenericDestination to' ns domain) = '''')
   \<and> (hft_ServiceName to = Some name \<longrightarrow>
        d_Host (buildDestination to ns domain) = name @ ''.'' @ ns @ ''.svc.'' @ domain)
   \<and> (ft_ServiceName to' = Some name \<longrightarrow>
        d_Host (buildGenericDestination to' ns domain) = name @ ''.'' @ ns @ ''.svc.'' @ domain)"
  using http_destinations [of action ns domain res] tcp_destinations [of action' ns domain res']
  by (simp add: buildDestination_def buildGenericDestination_def)

theorem unsupported_target_kept_witness:
  "buildHTTPDestination [exServiceTarget, exBackendTarget] ''bookinfo'' ''cluster.local''
     = Inr [\<lparr>hd_Destination = Some \<lparr>d_Host = ''reviews.bookinfo.svc.cluster.local'', d_Port = None\<rparr>,
             hd_Weight = 50, hd_Headers = None\<rparr>,
            \<lparr>hd_Destination = Some \<lparr>d_Host = '''', d_Port = None\<rparr>, hd_Weight = 50,
             hd_Headers = None\<rparr>]
   \<and> map hd_Destination
         [\<lparr>hd_Destination = Some \<lparr>d_Host = ''reviews.bookinfo.svc.cluster.local'', d_Port = None\<rparr>,
           hd_Weight = 50, hd_Headers = None\<rparr>,
          \<lparr>hd_Destination = Some \<lparr>d_Host = '''', d_Port = None\<rparr>, hd_Weight = 50,
           hd_Headers = None\<rparr>]
       = map (\<lambda>fwd. Some (buildDestination fwd ''bookinfo'' ''cluster.local''))
           [exServiceTarget, exBackendTarget]
   \<and> buildTCPDestination [exGenericBackendTarget] ''bookinfo'' ''cluster.local''
       = Inr [\<lparr>rd_Destination = Some \<lparr>d_Host = '''', d_Port = None\<rparr>, rd_Weight = 0\<rparr>]
   \<and> map rd_Destination [\<lparr>rd_Destination = Some \<lparr>d_Host = '''', d_Port = None\<rparr>, rd_Weight = 0\<rparr>]
       = map (\<lambda>fwd. Some (buildGenericDestination fwd ''bookinfo'' ''cluster.local''))
           [exGenericBackendTarget]
   \<and> hft_ServiceName exBackendTarget = None
   \<and> d_Host (buildDestination exBackendTarget ''bookinfo'' ''cluster.local'') = ''''
   \<and> ft_ServiceName exGenericBackendTarget = None
   \<and> d_Host (buildGenericDestination exGenericBackendTarget ''bookinfo'' ''cluster.local'') = ''''"
proof -
  have t: "buildTCPDestination [exGenericBackendTarget] ''bookinfo'' ''cluster.local''
       = Inr [\<lparr>rd_Destination = Some \<lparr>d_Host = '''', d_Port = None\<rparr>, rd_Weight = 0\<rparr>]"
    by (simp add: buildTCPDestination_def standardizeWeights_def tcpDestination_eq indexed_def
        tcpDestinationOf_def exGenericBackendTarget_def buildGenericDestination_def)
  have n: "hft_ServiceName exBackendTarget = None" "ft_ServiceName exGenericBackendTarget = None"
    by (simp_all add: exBackendTarget_def exGenericBackendTarget_def)
  define res where
    "res = [\<lparr>hd_Destination = Some \<lparr>d_Host = ''reviews.bookinfo.svc.cluster.local'', d_Port = None\<rparr>,
             hd_Weight = 50, hd_Headers = None\<rparr>,
            \<lparr>hd_Destination = Some \<lparr>d_Host = '''', d_Port = None\<rparr>, hd_Weight = 50,
             hd_Headers = None\<rparr>]"
  define res' where
    "res' = [\<lparr>rd_Destination = Some \<lparr>d_Host = '''', d_Port = None\<rparr>, rd_Weight = 0\<rparr>]"
  have h: "buildHTTPDestination [exServiceTarget, exBackendTarget] ''bookinfo'' ''cluster.local''
      = Inr res"
    unfolding res_def by (rule exTargets_destinations)
  have t': "buildTCPDestination [exGenericBackendTarget] ''bookinfo'' ''cluster.local'' = Inr res'"
    unfolding res'_def by (rule t)
  from unsupported_target_kept
    [where action = "[exServiceTarget, exBackendTarget]" and ns = "''bookinfo''"
       and domain = "''cluster.local''" and res = res
       and action' = "[exGenericBackendTarget]" and res' = res'
       and to = exBackendTarget and to' = exGenericBackendTarget]
    h t' n
  have "map hd_Destination res
          = map (\<lambda>fwd. Some (buildDestination fwd ''bookinfo'' ''cluster.local''))
              [exServiceTarget, exBackendTarget]
        \<and> map rd_Destination res'
          = map (\<lambda>fwd. Some (buildGenericDestination fwd ''bookinfo'' ''cluster.local''))
              [exGenericBackendTarget]
        \<and> d_Host (buildDestination exBackendTarget ''bookinfo'' ''cluster.local'') = ''''
        \<and> d_Host (buildGenericDestination exGenericBackendTarget ''bookinfo'' ''cluster.local'') = ''''"
    by blast
  then show ?thesis using h t' n unfolding res_def res'_def by blast
qed


end
